theory Spec2Isabelle
  imports Main "HOL-Library.Sublist"
begin

text \<open>
  The Browse API connection of the eBay SDK (\<^verbatim>\<open>ebaysdk/browse/__init__.py\<close>): the class
  \<^verbatim>\<open>Connection\<close> with its request builder, its cache of one OAuth token and its
  extraction of errors and warnings from a response.  Each method is a function of the
  same name that takes the connection and returns the result, or the exception raised,
  together with the connection as the method leaves it.
\<close>

section \<open>Python values\<close>

text \<open>
  The connection works on untyped Python data: the request parameters, the parsed JSON
  of a response, the OAuth token.  They are values of one datatype.  A dictionary is the
  list of its items in insertion order; its keys are strings (parameter names, JSON
  member names).  Floating point numbers are left out.
\<close>

datatype pyval =
    PNone
  | PBool bool
  | PInt int
  | PStr string
  | PList "pyval list"
  | PDict "(string \<times> pyval) list"

text \<open>Truth value of an object, as \<^verbatim>\<open>not x\<close> and \<^verbatim>\<open>x or y\<close> read it.\<close>

fun truthy :: "pyval \<Rightarrow> bool" where
  "truthy PNone = False"
| "truthy (PBool b) = b"
| "truthy (PInt i) = (i \<noteq> 0)"
| "truthy (PStr s) = (s \<noteq> [])"
| "truthy (PList xs) = (xs \<noteq> [])"
| "truthy (PDict d) = (d \<noteq> [])"

fun is_dict :: "pyval \<Rightarrow> bool" where
  "is_dict (PDict d) = True"
| "is_dict _ = False"

text \<open>
  Python's \<^verbatim>\<open>==\<close>: a bool is the integer 0 or 1, lists compare item by item,
  dictionaries compare as mappings whatever the order of their items.
\<close>

fun py_eq :: "pyval \<Rightarrow> pyval \<Rightarrow> bool"
  and py_eq_list :: "pyval list \<Rightarrow> pyval list \<Rightarrow> bool"
  and py_sub_dict :: "(string \<times> pyval) list \<Rightarrow> (string \<times> pyval) list \<Rightarrow> bool"
where
  "py_eq PNone PNone = True"
| "py_eq (PBool a) (PBool b) = (a = b)"
| "py_eq (PBool a) (PInt j) = ((if a then 1 else 0) = j)"
| "py_eq (PInt i) (PBool b) = (i = (if b then 1 else 0))"
| "py_eq (PInt i) (PInt j) = (i = j)"
| "py_eq (PStr s) (PStr t) = (s = t)"
| "py_eq (PList xs) (PList ys) = py_eq_list xs ys"
| "py_eq (PDict a) (PDict b) = (length a = length b \<and> py_sub_dict a b)"
| "py_eq _ _ = False"
| "py_eq_list [] [] = True"
| "py_eq_list (x # xs) (y # ys) = (py_eq x y \<and> py_eq_list xs ys)"
| "py_eq_list _ _ = False"
| "py_sub_dict [] b = True"
| "py_sub_dict ((k, v) # a) b =
     (case map_of b k of None \<Rightarrow> False | Some w \<Rightarrow> py_eq v w \<and> py_sub_dict a b)"

text \<open>\<^verbatim>\<open>x in xs\<close> for a list \<open>xs\<close>.\<close>

definition py_in_list :: "pyval \<Rightarrow> pyval list \<Rightarrow> bool" where
  "py_in_list x xs = list_ex (\<lambda>item. py_eq item x) xs"

text \<open>\<^verbatim>\<open>d.get(key, default)\<close> for a dictionary \<open>d\<close>.\<close>

definition dict_get :: "(string \<times> pyval) list \<Rightarrow> string \<Rightarrow> pyval \<Rightarrow> pyval" where
  "dict_get d key dflt = (case map_of d key of None \<Rightarrow> dflt | Some v \<Rightarrow> v)"

datatype py_error =
    ValueError string
  | ConnectionError string
  | TypeError
  | AttributeError
  | KeyError
  | JSONDecodeError
  | Propagated string

text \<open>
  \<^verbatim>\<open>x.get(key, default)\<close> for any object: only a dictionary has the method.
\<close>

fun py_get :: "pyval \<Rightarrow> string \<Rightarrow> pyval \<Rightarrow> py_error + pyval" where
  "py_get (PDict d) key dflt = Inr (dict_get d key dflt)"
| "py_get _ key dflt = Inl AttributeError"

text \<open>
  The items a \<^verbatim>\<open>for\<close> loop visits: the items of a list, the keys of a dictionary, the
  characters of a string; anything else is not iterable.
\<close>

fun py_iter :: "pyval \<Rightarrow> py_error + pyval list" where
  "py_iter (PList xs) = Inr xs"
| "py_iter (PDict d) = Inr (map (\<lambda>(k, v). PStr k) d)"
| "py_iter (PStr s) = Inr (map (\<lambda>c. PStr [c]) s)"
| "py_iter _ = Inl TypeError"

text \<open>\<^verbatim>\<open>key in x\<close> for a string \<open>key\<close> and any object \<open>x\<close>.\<close>

fun py_contains :: "pyval \<Rightarrow> string \<Rightarrow> py_error + bool" where
  "py_contains (PDict d) key = Inr (key \<in> fst ` set d)"
| "py_contains (PList xs) key = Inr (py_in_list (PStr key) xs)"
| "py_contains (PStr s) key = Inr (sublist key s)"
| "py_contains _ key = Inl TypeError"

text \<open>\<^verbatim>\<open>x[key]\<close> for a string \<open>key\<close>: a list and a string take integer indices only.\<close>

fun py_getitem :: "pyval \<Rightarrow> string \<Rightarrow> py_error + pyval" where
  "py_getitem (PDict d) key = (case map_of d key of None \<Rightarrow> Inl KeyError | Some v \<Rightarrow> Inr v)"
| "py_getitem _ key = Inl TypeError"

section \<open>Text of a value\<close>

function str_nat :: "nat \<Rightarrow> string" where
  "str_nat n =
     (if n < 10 then [''0123456789'' ! n]
      else str_nat (n div 10) @ [''0123456789'' ! (n mod 10)])"
  by pat_completeness auto
termination
  by (relation "measure (\<lambda>n. n)") auto

declare str_nat.simps [simp del]

definition str_int :: "int \<Rightarrow> string" where
  "str_int i = (if i < 0 then ''-'' @ str_nat (nat (- i)) else str_nat (nat i))"

text \<open>
  What \<^verbatim>\<open>str(x)\<close>, an f-string field \<^verbatim>\<open>{x}\<close> and \<^verbatim>\<open>'{item_id}'.format(item_id=x)\<close>
  give.  The text of a list or a dictionary is built from the \<^verbatim>\<open>repr\<close> of its items;
  it is taken as the parameter \<open>py_repr\<close>.
\<close>

fun py_str :: "(pyval \<Rightarrow> string) \<Rightarrow> pyval \<Rightarrow> string" where
  "py_str py_repr PNone = ''None''"
| "py_str py_repr (PBool b) = (if b then ''True'' else ''False'')"
| "py_str py_repr (PInt i) = str_int i"
| "py_str py_repr (PStr s) = s"
| "py_str py_repr x = py_repr x"

fun str_join :: "string \<Rightarrow> string list \<Rightarrow> string" where
  "str_join sep [] = []"
| "str_join sep [x] = x"
| "str_join sep (x # y # ys) = x @ sep @ str_join sep (y # ys)"

text \<open>
  \<^verbatim>\<open>template.format(item_id=...)\<close> for the two path templates of the endpoint table,
  whose only replacement field is \<^verbatim>\<open>{item_id}\<close>: every occurrence of the field is
  replaced by the text given.
\<close>

fun after_prefix :: "string \<Rightarrow> string \<Rightarrow> string option" where
  "after_prefix [] s = Some s"
| "after_prefix (p # ps) [] = None"
| "after_prefix (p # ps) (c # cs) = (if p = c then after_prefix ps cs else None)"

lemma after_prefix_length: "after_prefix p s = Some r \<Longrightarrow> length r + length p = length s"
  by (induction p s rule: after_prefix.induct) (auto split: if_splits)

function format_item_id :: "string \<Rightarrow> string \<Rightarrow> string" where
  "format_item_id [] item_id = []"
| "format_item_id (c # cs) item_id =
     (case after_prefix ''{item_id}'' (c # cs) of
        Some rest \<Rightarrow> item_id @ format_item_id rest item_id
      | None \<Rightarrow> c # format_item_id cs item_id)"
  by pat_completeness auto
termination
proof (relation "measure (\<lambda>(s, item_id). length s)")
  show "wf (measure (\<lambda>(s, item_id). length s))"
    by simp
next
  fix c :: char and cs item_id rest :: string
  assume "after_prefix ''{item_id}'' (c # cs) = Some rest"
  then have "length rest + length ''{item_id}'' = length (c # cs)"
    by (rule after_prefix_length)
  then show "((rest, item_id), (c # cs, item_id)) \<in> measure (\<lambda>(s, item_id). length s)"
    by simp
next
  fix c :: char and cs item_id :: string
  show "((cs, item_id), (c # cs, item_id)) \<in> measure (\<lambda>(s, item_id). length s)"
    by simp
qed

section \<open>The connection and what surrounds it\<close>

text \<open>
  The configuration after the constructor has run: every key the connection reads is set
  there (\<^verbatim>\<open>https\<close> is forced to \<^verbatim>\<open>True\<close>).  The application id and the certificate id
  are \<^verbatim>\<open>None\<close> until given.
\<close>

record config =
  cfg_https :: bool
  cfg_domain :: string
  cfg_uri :: string
  cfg_siteid :: string
  cfg_appid :: pyval
  cfg_certid :: pyval
  cfg_warnings :: bool
  cfg_errors :: bool

text \<open>The token \<^verbatim>\<open>fetch_token\<close> returns is a dictionary.\<close>

type_synonym token = "(string \<times> pyval) list"

text \<open>The arguments of one token request: those of the OAuth session and of \<^verbatim>\<open>fetch_token\<close>.\<close>

record oauth_request =
  oa_client_id :: pyval
  oa_client_secret :: pyval
  oa_scope :: string
  oa_token_endpoint_auth_method :: string
  oa_url :: string
  oa_grant_type :: string

text \<open>
  How a token request ends: with a token, with one of the two exceptions the accessor
  catches, or with any other exception.  The string is the text of the exception.
\<close>

datatype fetch_outcome =
    Fetched token
  | OAuth2Error string
  | RequestException string
  | OtherException string

text \<open>The arguments the request object is built from.\<close>

record http_request =
  rq_method :: string
  rq_url :: string
  rq_params :: "(string \<times> pyval) list option"
  rq_data :: string
  rq_headers :: "(string \<times> string) list"
  rq_files :: pyval

text \<open>
  The collaborators that are not part of this module: the two encoders of
  \<^verbatim>\<open>ebaysdk.utils\<close>, \<^verbatim>\<open>json.dumps\<close>, the \<^verbatim>\<open>repr\<close> of a list or dictionary, the user agent
  string, the token's own expiry test (it reads the clock), the token endpoint, and
  \<^verbatim>\<open>Request.prepare\<close> of the HTTP library, which returns the prepared request or raises
  (on a URL or a header it does not accept).
\<close>

record env =
  smart_encode :: "pyval \<Rightarrow> pyval"
  smart_encode_request_data :: "string \<Rightarrow> string"
  json_dumps :: "pyval \<Rightarrow> string"
  py_repr :: "pyval \<Rightarrow> string"
  UserAgent :: string
  is_expired :: "token \<Rightarrow> bool"
  fetch_token :: "oauth_request \<Rightarrow> fetch_outcome"
  prepare :: "http_request \<Rightarrow> py_error + http_request"

text \<open>
  A response, as far as the connection reads it: the status code, the reason phrase and
  what \<^verbatim>\<open>response.json()\<close> returns (\<open>None\<close> when the body is not JSON and the call
  raises).
\<close>

record response =
  status_code :: int
  reason :: string
  resp_json :: "pyval option"

datatype log_level = WARNING | ERROR

text \<open>
  The attributes of the connection object, each \<^verbatim>\<open>self.x\<close> or \<^verbatim>\<open>self._x\<close> as
  \<open>self_x\<close>.  \<open>self_token\<close> is \<open>None\<close> while the object has no attribute \<^verbatim>\<open>_token\<close>.
  Two more fields record the effects outside the object: the token requests sent and the
  lines logged, oldest first.
\<close>

record connection =
  self_config :: config
  self_verb :: "string option"
  self_method :: string
  self_request_dict :: pyval
  self_request :: "http_request option"
  self_response :: "response option"
  self_response_error :: "string option"
  self_resp_body_errors :: "string list"
  self_resp_body_warnings :: "string list"
  self_resp_codes :: "pyval list"
  self_token :: "token option"
  token_requests :: "oauth_request list"
  logged :: "(log_level \<times> string) list"

text \<open>
  Modelled from the spec: the table \<^verbatim>\<open>HTTP_SSL\<close> is imported from
  \<^verbatim>\<open>ebaysdk.connection\<close>, which is not among the sources.  The spec has requests go over
  HTTP(S), chosen by an https flag of the configuration.
\<close>

definition HTTP_SSL :: "bool \<Rightarrow> string" where
  "HTTP_SSL https = (if https then ''https'' else ''http'')"

section \<open>Request builder\<close>

text \<open>
  \<^verbatim>\<open>build_request_data\<close> (lines 104--108) and \<^verbatim>\<open>build_request_query\<close> (lines 110--119).
  The query is the dictionary comprehension: the items in the order of the input, those
  kept that pass its condition, each value encoded.
\<close>

definition build_request_data :: "env \<Rightarrow> string \<Rightarrow> pyval \<Rightarrow> pyval \<Rightarrow> string" where
  "build_request_data E verb data verb_attrs =
     (if verb \<in> set [''searchByImage'', ''checkCompatibility''] \<and> is_dict data
      then json_dumps E data
      else '''')"

definition build_request_query :: "env \<Rightarrow> string \<Rightarrow> pyval \<Rightarrow> (string \<times> pyval) list option" where
  "build_request_query E verb data =
     (case data of
        PDict items \<Rightarrow>
          if verb \<notin> set [''searchByImage'', ''checkCompatibility'']
          then Some (map (\<lambda>(key, val). (key, smart_encode E val))
                 (filter (\<lambda>(key, val).
                    (verb \<notin> set [''getItem'', ''checkCompatibility''] \<or> key \<noteq> ''item_id'')
                    \<and> val \<noteq> PNone) items))
          else None
      | _ \<Rightarrow> None)"

text \<open>\<^verbatim>\<open>build_request_url\<close> (lines 121--148): its table of path templates and the base URL.\<close>

definition endpoint_map :: "(string \<times> string) list" where
  "endpoint_map =
     [(''search'', ''/item_summary/search''),
      (''searchByImage'', ''/item_summary/search_by_image''),
      (''getItem'', ''/item/{item_id}''),
      (''getItemByLegacyId'', ''/item/get_item_by_legacy_id''),
      (''getItems'', ''/item/''),
      (''getItemsByItemGroup'', ''/item/get_items_by_item_group''),
      (''checkCompatibility'', ''/item/{item_id}/check_compatibility'')]"

definition base_url :: "config \<Rightarrow> string" where
  "base_url c = HTTP_SSL (cfg_https c) @ ''://'' @ cfg_domain c @ cfg_uri c"

text \<open>
  The URL of a verb.  The test \<^verbatim>\<open>not d or 'item_id' not in d\<close> and the lookup
  \<^verbatim>\<open>d['item_id']\<close> are written out for every kind of object \<open>d\<close> the attribute
  \<^verbatim>\<open>_request_dict\<close> may hold.
\<close>

definition build_request_url :: "env \<Rightarrow> connection \<Rightarrow> string \<Rightarrow> py_error + string" where
  "build_request_url E self verb =
     (let endpoint = (case map_of endpoint_map verb of None \<Rightarrow> ''/'' @ verb | Some e \<Rightarrow> e) in
      if verb \<in> set [''getItem'', ''checkCompatibility''] then
        if \<not> truthy (self_request_dict self)
        then Inl (ValueError ''item_id is required for getItem and checkCompatibility'')
        else
          (case py_contains (self_request_dict self) ''item_id'' of
             Inl e \<Rightarrow> Inl e
           | Inr False \<Rightarrow> Inl (ValueError ''item_id is required for getItem and checkCompatibility'')
           | Inr True \<Rightarrow>
               (case py_getitem (self_request_dict self) ''item_id'' of
                  Inl e \<Rightarrow> Inl e
                | Inr item_id \<Rightarrow>
                    Inr (base_url (self_config self)
                         @ format_item_id endpoint (py_str (py_repr E) item_id))))
      else Inr (base_url (self_config self) @ endpoint))"

section \<open>Token cache\<close>

text \<open>
  The accessor \<^verbatim>\<open>access_token\<close> (lines 232--260).  First the request it sends: the
  arguments of \<^verbatim>\<open>OAuth2Session\<close> and of \<^verbatim>\<open>fetch_token\<close>.
\<close>

definition token_request :: "config \<Rightarrow> pyval \<Rightarrow> pyval \<Rightarrow> oauth_request" where
  "token_request c client_id client_secret =
     \<lparr>oa_client_id = client_id,
      oa_client_secret = client_secret,
      oa_scope = ''https://'' @ cfg_domain c @ ''/oauth/api_scope'',
      oa_token_endpoint_auth_method = ''client_secret_basic'',
      oa_url = ''https://'' @ cfg_domain c @ ''/identity/v1/oauth2/token'',
      oa_grant_type = ''client_credentials''\<rparr>"

text \<open>
  The body of the \<^verbatim>\<open>if\<close> in the accessor: check the credentials, send the request,
  store the token.  The request is recorded before its outcome is known.
\<close>

definition refresh_token :: "env \<Rightarrow> connection \<Rightarrow> (py_error + unit) \<times> connection" where
  "refresh_token E self =
     (let client_id = cfg_appid (self_config self);
          client_secret = cfg_certid (self_config self) in
      if \<not> truthy client_id \<or> \<not> truthy client_secret
      then (Inl (ValueError ''appid (client id) and certid (client secret) are required for OAuth''),
            self)
      else
        (let rq = token_request (self_config self) client_id client_secret;
             sent = self\<lparr>token_requests := token_requests self @ [rq]\<rparr> in
         case fetch_token E rq of
           Fetched t \<Rightarrow> (Inr (), sent\<lparr>self_token := Some t\<rparr>)
         | OAuth2Error e \<Rightarrow> (Inl (ConnectionError (''Failed to get access token: '' @ e)), sent)
         | RequestException e \<Rightarrow>
             (Inl (ConnectionError (''Failed to get access token: '' @ e)), sent)
         | OtherException e \<Rightarrow> (Inl (Propagated e), sent)))"

text \<open>\<^verbatim>\<open>self._token['access_token']\<close>.\<close>

definition token_field :: "connection \<Rightarrow> py_error + pyval" where
  "token_field self =
     (case self_token self of
        None \<Rightarrow> Inl AttributeError
      | Some t \<Rightarrow> py_getitem (PDict t) ''access_token'')"

text \<open>The condition \<^verbatim>\<open>not hasattr(self, '_token') or self._token.is_expired()\<close>.\<close>

definition needs_refresh :: "env \<Rightarrow> connection \<Rightarrow> bool" where
  "needs_refresh E self =
     (case self_token self of None \<Rightarrow> True | Some t \<Rightarrow> is_expired E t)"

definition access_token :: "env \<Rightarrow> connection \<Rightarrow> (py_error + pyval) \<times> connection" where
  "access_token E self =
     (if needs_refresh E self then
        (case refresh_token E self of
           (Inl e, self') \<Rightarrow> (Inl e, self')
         | (Inr u, self') \<Rightarrow> (token_field self', self'))
      else (token_field self, self))"

section \<open>Headers and the request\<close>

text \<open>
  \<^verbatim>\<open>build_request_headers\<close> (lines 94--102) reads the token through the accessor, so it
  may raise and may change the connection.  \<^verbatim>\<open>build_request\<close> (lines 150--175) sets the
  verb, the parameters and the method first, then builds the parts in the order of the
  source and prepares the request; an exception leaves the attributes set so far, and
  \<^verbatim>\<open>self.request\<close> is set only when \<^verbatim>\<open>prepare\<close> has returned.
\<close>

definition build_request_headers ::
  "env \<Rightarrow> connection \<Rightarrow> string \<Rightarrow> (py_error + (string \<times> string) list) \<times> connection" where
  "build_request_headers E self verb =
     (case access_token E self of
        (Inl e, self') \<Rightarrow> (Inl e, self')
      | (Inr tok, self') \<Rightarrow>
          (Inr [(''Content-Type'', ''application/json''),
                (''Accept'', ''application/json''),
                (''Authorization'', ''Bearer '' @ py_str (py_repr E) tok),
                (''User-Agent'', UserAgent E),
                (''X-EBAY-C-MARKETPLACE-ID'', cfg_siteid (self_config self'))],
           self'))"

definition build_request ::
  "env \<Rightarrow> connection \<Rightarrow> string \<Rightarrow> pyval \<Rightarrow> pyval \<Rightarrow> pyval \<Rightarrow> (py_error + unit) \<times> connection" where
  "build_request E self verb data verb_attrs files =
     (let self1 = self\<lparr>self_verb := Some verb, self_request_dict := data\<rparr>;
          self2 = (if verb \<in> set [''searchByImage'', ''checkCompatibility'']
                   then self1\<lparr>self_method := ''POST''\<rparr>
                   else self1\<lparr>self_method := ''GET''\<rparr>) in
      case build_request_url E self2 verb of
        Inl e \<Rightarrow> (Inl e, self2)
      | Inr url \<Rightarrow>
          (case build_request_headers E self2 verb of
             (Inl e, self3) \<Rightarrow> (Inl e, self3)
           | (Inr headers, self3) \<Rightarrow>
               (let params = build_request_query E verb data;
                    requestData = build_request_data E verb data verb_attrs;
                    request = \<lparr>rq_method = self_method self3,
                               rq_url = url,
                               rq_params = params,
                               rq_data = smart_encode_request_data E requestData,
                               rq_headers = headers,
                               rq_files = files\<rparr> in
                case prepare E request of
                  Inl e \<Rightarrow> (Inl e, self3)
                | Inr prepared \<Rightarrow> (Inr (), self3\<lparr>self_request := Some prepared\<rparr>))))"

section \<open>Response error extraction\<close>

text \<open>\<^verbatim>\<open>process_response\<close> (lines 177--181).\<close>

definition process_response :: "connection \<Rightarrow> bool \<Rightarrow> py_error + connection" where
  "process_response self parse_response =
     (case self_response self of
        None \<Rightarrow> Inl AttributeError
      | Some r \<Rightarrow>
          if status_code r \<noteq> 200
          then Inr (self\<lparr>self_response_error := Some (reason r)\<rparr>)
          else Inr self)"

text \<open>
  The body of the two \<^verbatim>\<open>for\<close> loops (they differ in the names of their variables only):
  read the three members of the entry, record its code unless the list of codes has it,
  append the message.
\<close>

fun collect_entries ::
  "env \<Rightarrow> pyval list \<Rightarrow> string list \<Rightarrow> pyval list \<Rightarrow> py_error + (string list \<times> pyval list)" where
  "collect_entries E [] msgs resp_codes = Inr (msgs, resp_codes)"
| "collect_entries E (entry # entries) msgs resp_codes =
     (case py_get entry ''errorId'' PNone of
        Inl e \<Rightarrow> Inl e
      | Inr code \<Rightarrow>
          (case py_get entry ''category'' PNone of
             Inl e \<Rightarrow> Inl e
           | Inr category \<Rightarrow>
               (case py_get entry ''message'' PNone of
                  Inl e \<Rightarrow> Inl e
                | Inr message \<Rightarrow>
                    (let resp_codes' =
                           (if \<not> py_in_list code resp_codes then resp_codes @ [code]
                            else resp_codes);
                         msg = ''Category: '' @ py_str (py_repr E) category
                               @ '', Code: '' @ py_str (py_repr E) code
                               @ '', '' @ py_str (py_repr E) message in
                     collect_entries E entries (msgs @ [msg]) resp_codes'))))"

text \<open>
  \<^verbatim>\<open>_get_resp_body_errors\<close> (lines 183--230): the stored list first, then the guard on
  the verb and the status, then the two loops; the three attributes are assigned, and
  the lines logged, only after both loops have run without an exception.
\<close>

definition log_line :: "string \<Rightarrow> string list \<Rightarrow> string" where
  "log_line verb msgs = verb @ '': '' @ str_join [CHR 0x0A] msgs @ [CHR 0x0A, CHR 0x0A]"

definition get_resp_body_errors :: "env \<Rightarrow> connection \<Rightarrow> (py_error + string list) \<times> connection" where
  "get_resp_body_errors E self =
     (if self_resp_body_errors self \<noteq> [] then (Inr (self_resp_body_errors self), self)
      else
        (case self_verb self of
           None \<Rightarrow> (Inr [], self)
         | Some verb \<Rightarrow>
        (case self_response self of
           None \<Rightarrow> (Inl AttributeError, self)
         | Some r \<Rightarrow>
        if status_code r \<noteq> 200 then (Inr [], self)
        else
        (case resp_json r of
           None \<Rightarrow> (Inl JSONDecodeError, self)
         | Some response_data \<Rightarrow>
        (case py_get response_data ''errors'' (PList []) of
           Inl e \<Rightarrow> (Inl e, self)
         | Inr errors_member \<Rightarrow>
        (case py_iter errors_member of
           Inl e \<Rightarrow> (Inl e, self)
         | Inr error_entries \<Rightarrow>
        (case collect_entries E error_entries [] [] of
           Inl e \<Rightarrow> (Inl e, self)
         | Inr (errors, resp_codes1) \<Rightarrow>
        (case py_get response_data ''warnings'' (PList []) of
           Inl e \<Rightarrow> (Inl e, self)
         | Inr warnings_member \<Rightarrow>
        (case py_iter warnings_member of
           Inl e \<Rightarrow> (Inl e, self)
         | Inr warning_entries \<Rightarrow>
        (case collect_entries E warning_entries [] resp_codes1 of
           Inl e \<Rightarrow> (Inl e, self)
         | Inr (warnings, resp_codes) \<Rightarrow>
             (let self1 = self\<lparr>self_resp_body_warnings := warnings,
                               self_resp_body_errors := errors,
                               self_resp_codes := resp_codes\<rparr>;
                  self2 = (if cfg_warnings (self_config self1) \<and> warnings \<noteq> []
                           then self1\<lparr>logged := logged self1 @ [(WARNING, log_line verb warnings)]\<rparr>
                           else self1);
                  self3 = (if cfg_errors (self_config self2) \<and> errors \<noteq> []
                           then self2\<lparr>logged := logged self2 @ [(ERROR, log_line verb errors)]\<rparr>
                           else self2) in
              (Inr errors, self3))))))))))))"

section \<open>Sequences of calls\<close>

text \<open>
  The methods of the connection that change it, as a caller may invoke them one after
  another on one connection.  A call that raises leaves the connection as it was when the
  exception was raised, and the caller may go on with it.  Nothing here assigns
  \<^verbatim>\<open>self.response\<close>: these sources never do.
\<close>

datatype operation =
    BuildRequest string pyval pyval pyval
  | BuildRequestHeaders string
  | AccessToken
  | ProcessResponse bool
  | GetRespBodyErrors

fun perform :: "env \<Rightarrow> operation \<Rightarrow> connection \<Rightarrow> connection" where
  "perform E (BuildRequest verb data verb_attrs files) self =
     snd (build_request E self verb data verb_attrs files)"
| "perform E (BuildRequestHeaders verb) self = snd (build_request_headers E self verb)"
| "perform E AccessToken self = snd (access_token E self)"
| "perform E (ProcessResponse parse_response) self =
     (case process_response self parse_response of Inl e \<Rightarrow> self | Inr self' \<Rightarrow> self')"
| "perform E GetRespBodyErrors self = snd (get_resp_body_errors E self)"

fun run :: "env \<Rightarrow> operation list \<Rightarrow> connection \<Rightarrow> connection" where
  "run E [] self = self"
| "run E (operation # operations) self = run E operations (perform E operation self)"

text \<open>
  What holds of the stored error list along such a sequence: it is empty, or the
  connection has a verb and its response has status 200.
\<close>

definition stored_after_200 :: "connection \<Rightarrow> bool" where
  "stored_after_200 self =
     (self_resp_body_errors self = []
      \<or> (self_verb self \<noteq> None
          \<and> (case self_response self of None \<Rightarrow> False | Some r \<Rightarrow> status_code r = 200)))"

section \<open>What the extraction is compared with\<close>

text \<open>
  The message of one entry of the \<^verbatim>\<open>errors\<close> or \<^verbatim>\<open>warnings\<close> array, in the words of
  the specification: \<^verbatim>\<open>Category: X, Code: Y, message\<close>.  A member the entry lacks reads
  \<^verbatim>\<open>None\<close>.
\<close>

definition entry_message :: "env \<Rightarrow> (string \<times> pyval) list \<Rightarrow> string" where
  "entry_message E entry =
     ''Category: '' @ py_str (py_repr E) (dict_get entry ''category'' PNone)
     @ '', Code: '' @ py_str (py_repr E) (dict_get entry ''errorId'' PNone)
     @ '', '' @ py_str (py_repr E) (dict_get entry ''message'' PNone)"

definition entry_code :: "(string \<times> pyval) list \<Rightarrow> pyval" where
  "entry_code entry = dict_get entry ''errorId'' PNone"

text \<open>
  Recording codes in one shared list: a code goes to the end of the list unless the list
  has an item equal to it.
\<close>

fun record_codes :: "pyval list \<Rightarrow> pyval list \<Rightarrow> pyval list" where
  "record_codes resp_codes [] = resp_codes"
| "record_codes resp_codes (code # codes) =
     record_codes (if py_in_list code resp_codes then resp_codes else resp_codes @ [code]) codes"

definition pairwise_unequal :: "pyval list \<Rightarrow> bool" where
  "pairwise_unequal cs = (\<forall>i j. i < j \<and> j < length cs \<longrightarrow> \<not> py_eq (cs ! i) (cs ! j))"

text \<open>
  The values Python can build: the keys of a dictionary are distinct, at every depth.
  Parsed JSON is such a value.
\<close>

fun wf_pyval :: "pyval \<Rightarrow> bool"
  and wf_list :: "pyval list \<Rightarrow> bool"
  and wf_items :: "(string \<times> pyval) list \<Rightarrow> bool"
where
  "wf_pyval (PList xs) = wf_list xs"
| "wf_pyval (PDict d) = (distinct (map fst d) \<and> wf_items d)"
| "wf_pyval PNone = True"
| "wf_pyval (PBool b) = True"
| "wf_pyval (PInt i) = True"
| "wf_pyval (PStr s) = True"
| "wf_list [] = True"
| "wf_list (x # xs) = (wf_pyval x \<and> wf_list xs)"
| "wf_items [] = True"
| "wf_items ((k, v) # d) = (wf_pyval v \<and> wf_items d)"

section \<open>Fixtures\<close>

text \<open>
  The connection of the unit tests (\<^verbatim>\<open>setUp\<close> in \<^verbatim>\<open>tests/test_browse.py\<close>) and an
  environment to evaluate examples in: encoders that return their argument, a token
  that is not expired, a token endpoint that answers with \<^verbatim>\<open>new_token\<close>, a
  \<^verbatim>\<open>prepare\<close> that accepts every request.  The texts its \<^verbatim>\<open>json.dumps\<close> and \<^verbatim>\<open>repr\<close>
  return are placeholders.
\<close>

definition test_config :: config where
  "test_config =
     \<lparr>cfg_https = True, cfg_domain = ''api.ebay.com'', cfg_uri = ''/buy/browse/v1'',
      cfg_siteid = ''EBAY_US'', cfg_appid = PStr ''test_appid'',
      cfg_certid = PStr ''test_certid'', cfg_warnings = True, cfg_errors = True\<rparr>"

definition test_env :: env where
  "test_env =
     \<lparr>smart_encode = (\<lambda>v. v),
      smart_encode_request_data = (\<lambda>s. s),
      json_dumps = (\<lambda>v. ''<json>''),
      py_repr = (\<lambda>v. ''<repr>''),
      UserAgent = ''eBaySDK'',
      is_expired = (\<lambda>t. False),
      fetch_token = (\<lambda>rq. Fetched [(''access_token'', PStr ''new_token'')]),
      prepare = (\<lambda>request. Inr request)\<rparr>"

definition test_api :: connection where
  "test_api =
     \<lparr>self_config = test_config, self_verb = None, self_method = ''GET'',
      self_request_dict = PDict [], self_request = None, self_response = None,
      self_response_error = None, self_resp_body_errors = [],
      self_resp_body_warnings = [], self_resp_codes = [],
      self_token = Some [(''access_token'', PStr ''test_token'')],
      token_requests = [], logged = []\<rparr>"

text \<open>
  Response bodies: the two of the unit tests (one error; one warning), and one whose
  codes repeat within and across the two arrays.  \<open>test_api_with\<close> is the test
  connection after a \<^verbatim>\<open>search\<close> request that was answered with status 200 and the body.
\<close>

definition test_errors_body :: "(string \<times> pyval) list" where
  "test_errors_body =
     [(''errors'',
       PList [PDict [(''errorId'', PStr ''123''), (''message'', PStr ''Test error''),
                     (''category'', PStr ''ERROR'')]])]"

definition test_warnings_body :: "(string \<times> pyval) list" where
  "test_warnings_body =
     [(''warnings'',
       PList [PDict [(''errorId'', PStr ''456''), (''message'', PStr ''Test warning''),
                     (''category'', PStr ''WARNING'')]])]"

definition test_codes_body :: "(string \<times> pyval) list" where
  "test_codes_body =
     [(''errors'',
       PList [PDict [(''errorId'', PInt 1)], PDict [(''errorId'', PInt 2)],
              PDict [(''errorId'', PInt 1)]]),
      (''warnings'',
       PList [PDict [(''errorId'', PInt 2)], PDict [(''errorId'', PBool True)],
              PDict [(''errorId'', PInt 3)]])]"

definition test_api_with :: "(string \<times> pyval) list \<Rightarrow> connection" where
  "test_api_with body =
     test_api\<lparr>self_verb := Some ''search'',
              self_response :=
                Some \<lparr>status_code = 200, reason = ''OK'', resp_json = Some (PDict body)\<rparr>\<rparr>"

text \<open>
  The response of the unit tests for a status other than 200, and the unit tests'
  connection holding a response without having built a request.
\<close>

definition test_bad_request :: response where
  "test_bad_request = \<lparr>status_code = 400, reason = ''Bad Request'', resp_json = None\<rparr>"

definition test_api_received :: "response \<Rightarrow> connection" where
  "test_api_received r = test_api\<lparr>self_response := Some r\<rparr>"

section \<open>The request builder: method, URL, query and body\<close>

text \<open>
  What the token accessor, the header builder and \<^verbatim>\<open>build_request\<close> leave of the
  connection, whether they return or raise: the token and the record of token requests
  change, \<^verbatim>\<open>build_request\<close> also assigns the verb, the request dictionary, the method and
  the request, and every other attribute is as it was.
\<close>

lemma access_token_state:
  "\<exists>reqs tok. snd (access_token E self) = self\<lparr>self_token := tok, token_requests := reqs\<rparr>"
proof (cases "needs_refresh E self")
  case False
  then have "snd (access_token E self)
      = self\<lparr>self_token := self_token self, token_requests := token_requests self\<rparr>"
    by (simp add: access_token_def)
  then show ?thesis by blast
next
  case True
  show ?thesis
  proof (cases "\<not> truthy (cfg_appid (self_config self)) \<or> \<not> truthy (cfg_certid (self_config self))")
    case True
    with \<open>needs_refresh E self\<close> have "snd (access_token E self)
        = self\<lparr>self_token := self_token self, token_requests := token_requests self\<rparr>"
      by (auto simp add: access_token_def refresh_token_def)
    then show ?thesis by blast
  next
    case False
    define rq where "rq = token_request (self_config self)
        (cfg_appid (self_config self)) (cfg_certid (self_config self))"
    show ?thesis
    proof (cases "fetch_token E rq")
      case (Fetched t)
      with False \<open>needs_refresh E self\<close> have "snd (access_token E self)
          = self\<lparr>self_token := Some t, token_requests := token_requests self @ [rq]\<rparr>"
        by (simp add: access_token_def refresh_token_def Let_def rq_def [symmetric])
      then show ?thesis by blast
    next
      case (OAuth2Error e)
      with False \<open>needs_refresh E self\<close> have "snd (access_token E self)
          = self\<lparr>self_token := self_token self, token_requests := token_requests self @ [rq]\<rparr>"
        by (simp add: access_token_def refresh_token_def Let_def rq_def [symmetric])
      then show ?thesis by blast
    next
      case (RequestException e)
      with False \<open>needs_refresh E self\<close> have "snd (access_token E self)
          = self\<lparr>self_token := self_token self, token_requests := token_requests self @ [rq]\<rparr>"
        by (simp add: access_token_def refresh_token_def Let_def rq_def [symmetric])
      then show ?thesis by blast
    next
      case (OtherException e)
      with False \<open>needs_refresh E self\<close> have "snd (access_token E self)
          = self\<lparr>self_token := self_token self, token_requests := token_requests self @ [rq]\<rparr>"
        by (simp add: access_token_def refresh_token_def Let_def rq_def [symmetric])
      then show ?thesis by blast
    qed
  qed
qed

lemma build_request_headers_state:
  "\<exists>reqs tok. snd (build_request_headers E self verb)
     = self\<lparr>self_token := tok, token_requests := reqs\<rparr>"
proof -
  obtain res self' where a: "access_token E self = (res, self')"
    by (cases "access_token E self")
  with access_token_state [of E self] obtain reqs tok where
    "self' = self\<lparr>self_token := tok, token_requests := reqs\<rparr>"
    by auto
  with a have "snd (build_request_headers E self verb)
      = self\<lparr>self_token := tok, token_requests := reqs\<rparr>"
    by (cases res) (simp_all add: build_request_headers_def)
  then show ?thesis by blast
qed

lemma build_request_state:
  "\<exists>reqs tok request. snd (build_request E self verb data verb_attrs files)
     = self\<lparr>self_verb := Some verb, self_request_dict := data,
            self_method := (if verb \<in> set [''searchByImage'', ''checkCompatibility'']
                            then ''POST'' else ''GET''),
            self_token := tok, token_requests := reqs, self_request := request\<rparr>"
proof -
  define m where "m = (if verb \<in> set [''searchByImage'', ''checkCompatibility'']
                            then ''POST'' else ''GET'')"
  define self2 where
    "self2 = self\<lparr>self_verb := Some verb, self_request_dict := data, self_method := m\<rparr>"
  have unfold: "build_request E self verb data verb_attrs files =
      (case build_request_url E self2 verb of
        Inl e \<Rightarrow> (Inl e, self2)
      | Inr url \<Rightarrow>
          (case build_request_headers E self2 verb of
             (Inl e, self3) \<Rightarrow> (Inl e, self3)
           | (Inr headers, self3) \<Rightarrow>
               (case prepare E \<lparr>rq_method = self_method self3,
                               rq_url = url,
                               rq_params = build_request_query E verb data,
                               rq_data = smart_encode_request_data E
                                  (build_request_data E verb data verb_attrs),
                               rq_headers = headers,
                               rq_files = files\<rparr> of
                  Inl e \<Rightarrow> (Inl e, self3)
                | Inr prepared \<Rightarrow> (Inr (), self3\<lparr>self_request := Some prepared\<rparr>))))"
    unfolding build_request_def Let_def self2_def m_def
    by (cases "verb \<in> set [''searchByImage'', ''checkCompatibility'']") simp_all
  have goal: "\<exists>reqs tok request. s
     = self\<lparr>self_verb := Some verb, self_request_dict := data, self_method := m,
            self_token := tok, token_requests := reqs, self_request := request\<rparr>"
    if "s = self2 \<or> (\<exists>reqs tok. s = self2\<lparr>self_token := tok, token_requests := reqs\<rparr>)
        \<or> (\<exists>reqs tok p. s = self2\<lparr>self_token := tok, token_requests := reqs, self_request := p\<rparr>)" for s
  proof -
    from that consider "s = self2"
      | reqs tok where "s = self2\<lparr>self_token := tok, token_requests := reqs\<rparr>"
      | reqs tok p where "s = self2\<lparr>self_token := tok, token_requests := reqs, self_request := p\<rparr>"
      by blast
    then show ?thesis
    proof cases
      case 1
      then have "s = self\<lparr>self_verb := Some verb, self_request_dict := data, self_method := m,
            self_token := self_token self, token_requests := token_requests self,
            self_request := self_request self\<rparr>"
        by (simp add: self2_def)
      then show ?thesis by blast
    next
      case 2
      then have "s = self\<lparr>self_verb := Some verb, self_request_dict := data, self_method := m,
            self_token := tok, token_requests := reqs, self_request := self_request self\<rparr>"
        by (simp add: self2_def)
      then show ?thesis by blast
    next
      case 3
      then have "s = self\<lparr>self_verb := Some verb, self_request_dict := data, self_method := m,
            self_token := tok, token_requests := reqs, self_request := p\<rparr>"
        by (simp add: self2_def)
      then show ?thesis by blast
    qed
  qed
  have "snd (build_request E self verb data verb_attrs files) = self2
        \<or> (\<exists>reqs tok. snd (build_request E self verb data verb_attrs files)
              = self2\<lparr>self_token := tok, token_requests := reqs\<rparr>)
        \<or> (\<exists>reqs tok p. snd (build_request E self verb data verb_attrs files)
              = self2\<lparr>self_token := tok, token_requests := reqs, self_request := p\<rparr>)"
  proof (cases "build_request_url E self2 verb")
    case (Inl e)
    then show ?thesis by (simp add: unfold)
  next
    case (Inr url)
    obtain res self3 where h: "build_request_headers E self2 verb = (res, self3)"
      by (cases "build_request_headers E self2 verb")
    with build_request_headers_state [of E self2 verb] obtain reqs tok where
      s3: "self3 = self2\<lparr>self_token := tok, token_requests := reqs\<rparr>"
      by auto
    show ?thesis
    proof (cases res)
      case (Inl e)
      with Inr h s3 have "snd (build_request E self verb data verb_attrs files)
              = self2\<lparr>self_token := tok, token_requests := reqs\<rparr>"
        by (simp add: unfold)
      then show ?thesis by blast
    next
      case (Inr headers)
      define request where "request = \<lparr>rq_method = self_method self3,
                               rq_url = url,
                               rq_params = build_request_query E verb data,
                               rq_data = smart_encode_request_data E
                                  (build_request_data E verb data verb_attrs),
                               rq_headers = headers,
                               rq_files = files\<rparr>"
      from Inr h \<open>build_request_url E self2 verb = Inr url\<close>
      have u: "build_request E self verb data verb_attrs files =
               (case prepare E request of
                  Inl e \<Rightarrow> (Inl e, self3)
                | Inr prepared \<Rightarrow> (Inr (), self3\<lparr>self_request := Some prepared\<rparr>))"
        by (simp add: unfold request_def)
      show ?thesis
      proof (cases "prepare E request")
        case (Inl e)
        with u s3 have "snd (build_request E self verb data verb_attrs files)
              = self2\<lparr>self_token := tok, token_requests := reqs\<rparr>"
          by simp
        then show ?thesis by blast
      next
        case (Inr prepared)
        with u s3 have "snd (build_request E self verb data verb_attrs files)
              = self2\<lparr>self_token := tok, token_requests := reqs, self_request := Some prepared\<rparr>"
          by simp
        then show ?thesis by blast
      qed
    qed
  qed
  then show ?thesis
    unfolding m_def [symmetric] by (rule goal)
qed

text \<open>
  Claim C2.  Whatever the verb, the data and the state, and whether or not the rest of
  \<^verbatim>\<open>build_request\<close> raises, the method it leaves in \<^verbatim>\<open>self.method\<close> is \<^verbatim>\<open>POST\<close> for the
  verbs \<^verbatim>\<open>searchByImage\<close> and \<^verbatim>\<open>checkCompatibility\<close> and \<^verbatim>\<open>GET\<close> for every other verb.
\<close>

theorem build_request_method:
  "self_method (snd (build_request E self verb data verb_attrs files)) =
     (if verb = ''searchByImage'' \<or> verb = ''checkCompatibility'' then ''POST'' else ''GET'')
   \<and> (self_method (snd (build_request E self verb data verb_attrs files)) = ''POST'')
       = (verb = ''searchByImage'' \<or> verb = ''checkCompatibility'')
   \<and> (self_method (snd (build_request E self verb data verb_attrs files)) = ''GET'')
       = (verb \<noteq> ''searchByImage'' \<and> verb \<noteq> ''checkCompatibility'')"
proof -
  from build_request_state [of E self verb data verb_attrs files]
  have "self_method (snd (build_request E self verb data verb_attrs files)) =
     (if verb \<in> set [''searchByImage'', ''checkCompatibility''] then ''POST'' else ''GET'')"
    by auto
  then show ?thesis
    by auto
qed

theorem build_request_method_witness:
  "self_method (snd (build_request test_env test_api ''searchByImage''
       (PDict [(''image'', PStr ''test'')]) PNone PNone)) = ''POST''
   \<and> self_method (snd (build_request test_env test_api ''checkCompatibility''
       (PDict []) PNone PNone)) = ''POST''
   \<and> self_method (snd (build_request test_env test_api ''search''
       (PDict [(''q'', PStr ''test'')]) PNone PNone)) = ''GET''"
  using build_request_method [of test_env test_api "''searchByImage''"
          "PDict [(''image'', PStr ''test'')]" PNone PNone, THEN conjunct1]
        build_request_method [of test_env test_api "''checkCompatibility''" "PDict []" PNone PNone,
          THEN conjunct1]
        build_request_method [of test_env test_api "''search''"
          "PDict [(''q'', PStr ''test'')]" PNone PNone, THEN conjunct1]
  by simp

text \<open>The two path templates, formatted.\<close>

lemma format_item_id_getItem: "format_item_id ''/item/{item_id}'' v = ''/item/'' @ v"
  by simp

lemma format_item_id_checkCompatibility:
  "format_item_id ''/item/{item_id}/check_compatibility'' v = ''/item/'' @ v @ ''/check_compatibility''"
  by simp

text \<open>
  Claim C3.  For the verbs \<^verbatim>\<open>getItem\<close> and \<^verbatim>\<open>checkCompatibility\<close>: with no request
  parameters (\<^verbatim>\<open>None\<close>) the URL builder raises the \<^verbatim>\<open>ValueError\<close>; with a dictionary
  it raises the \<^verbatim>\<open>ValueError\<close> when the key \<^verbatim>\<open>item_id\<close> is missing and otherwise returns
  the base URL followed by the path with the text of the \<^verbatim>\<open>item_id\<close> value in it.  So the
  \<^verbatim>\<open>ValueError\<close> is raised if and only if the mapping is absent or lacks the key, and
  \<^verbatim>\<open>getItem\<close> with \<^verbatim>\<open>item_id=123\<close> gives the base URL followed by \<^verbatim>\<open>/item/123\<close>.
\<close>

theorem build_request_url_item_id:
  assumes "verb = ''getItem'' \<or> verb = ''checkCompatibility''"
  shows
    "(self_request_dict self = PNone \<longrightarrow>
        build_request_url E self verb =
          Inl (ValueError ''item_id is required for getItem and checkCompatibility''))
     \<and> (\<forall>d. self_request_dict self = PDict d \<longrightarrow>
          build_request_url E self verb =
            (case map_of d ''item_id'' of
               None \<Rightarrow> Inl (ValueError ''item_id is required for getItem and checkCompatibility'')
             | Some v \<Rightarrow>
                 Inr (base_url (self_config self) @ ''/item/'' @ py_str (py_repr E) v
                      @ (if verb = ''getItem'' then [] else ''/check_compatibility''))))
     \<and> (self_request_dict self = PNone \<or> is_dict (self_request_dict self) \<longrightarrow>
          ((\<exists>msg. build_request_url E self verb = Inl (ValueError msg)) \<longleftrightarrow>
           (self_request_dict self = PNone
            \<or> (\<exists>d. self_request_dict self = PDict d \<and> ''item_id'' \<notin> fst ` set d))))
     \<and> (\<forall>d. self_request_dict self = PDict d \<and> map_of d ''item_id'' = Some (PInt 123) \<longrightarrow>
          build_request_url E self ''getItem'' = Inr (base_url (self_config self) @ ''/item/123''))"
proof -
  have none: "self_request_dict self = PNone \<Longrightarrow>
      build_request_url E self verb =
        Inl (ValueError ''item_id is required for getItem and checkCompatibility'')"
    using assms by (auto simp add: build_request_url_def)
  have dict: "build_request_url E self verb =
            (case map_of d ''item_id'' of
               None \<Rightarrow> Inl (ValueError ''item_id is required for getItem and checkCompatibility'')
             | Some v \<Rightarrow>
                 Inr (base_url (self_config self) @ ''/item/'' @ py_str (py_repr E) v
                      @ (if verb = ''getItem'' then [] else ''/check_compatibility'')))"
    if d: "self_request_dict self = PDict d" for d
  proof (cases "map_of d ''item_id''")
    case None
    then have "''item_id'' \<notin> fst ` set d"
      by (simp add: map_of_eq_None_iff)
    with assms d None show ?thesis
      by (auto simp add: build_request_url_def)
  next
    case (Some v)
    then have "(''item_id'', v) \<in> set d"
      by (rule map_of_SomeD)
    then have "''item_id'' \<in> fst ` set d" and "d \<noteq> []"
      by force+
    with assms d Some show ?thesis
      by (auto simp add: build_request_url_def endpoint_map_def)
  qed
  have iff: "(\<exists>msg. build_request_url E self verb = Inl (ValueError msg)) \<longleftrightarrow>
           (self_request_dict self = PNone
            \<or> (\<exists>d. self_request_dict self = PDict d \<and> ''item_id'' \<notin> fst ` set d))"
    if "self_request_dict self = PNone \<or> is_dict (self_request_dict self)"
  proof (cases "self_request_dict self")
    case (PDict d)
    have "(''item_id'' \<notin> fst ` set d) = (map_of d ''item_id'' = None)"
      by (simp add: map_of_eq_None_iff)
    with dict [OF PDict] PDict show ?thesis
      by (cases "map_of d ''item_id''") simp_all
  qed (use that none in auto)
  have ex: "build_request_url E self ''getItem'' = Inr (base_url (self_config self) @ ''/item/123'')"
    if "self_request_dict self = PDict d" "map_of d ''item_id'' = Some (PInt 123)" for d
  proof -
    have "(''item_id'', PInt 123) \<in> set d"
      using that(2) by (rule map_of_SomeD)
    then have "''item_id'' \<in> fst ` set d" and "d \<noteq> []"
      by force+
    with that show ?thesis
      by (simp add: build_request_url_def endpoint_map_def str_int_def str_nat.simps)
  qed
  from none dict iff ex show ?thesis
    by blast
qed

theorem build_request_url_item_id_witness:
  "build_request_url test_env
     (test_api\<lparr>self_request_dict := PDict [(''item_id'', PStr ''123456789'')]\<rparr>) ''getItem''
     = Inr ''https://api.ebay.com/buy/browse/v1/item/123456789''
   \<and> build_request_url test_env
     (test_api\<lparr>self_request_dict := PDict [(''item_id'', PStr ''123456789'')]\<rparr>)
     ''checkCompatibility''
     = Inr ''https://api.ebay.com/buy/browse/v1/item/123456789/check_compatibility''
   \<and> build_request_url test_env
     (test_api\<lparr>self_request_dict := PDict [(''item_id'', PInt 123)]\<rparr>) ''getItem''
     = Inr ''https://api.ebay.com/buy/browse/v1/item/123''
   \<and> build_request_url test_env (test_api\<lparr>self_request_dict := PDict []\<rparr>) ''getItem''
     = Inl (ValueError ''item_id is required for getItem and checkCompatibility'')
   \<and> build_request_url test_env
     (test_api\<lparr>self_request_dict := PDict [(''fieldgroups'', PStr ''PRODUCT'')]\<rparr>) ''getItem''
     = Inl (ValueError ''item_id is required for getItem and checkCompatibility'')
   \<and> build_request_url test_env (test_api\<lparr>self_request_dict := PNone\<rparr>) ''checkCompatibility''
     = Inl (ValueError ''item_id is required for getItem and checkCompatibility'')"
proof -
  have g: "''getItem'' = ''getItem'' \<or> ''getItem'' = ''checkCompatibility''"
    by simp
  have c: "''checkCompatibility'' = ''getItem'' \<or> ''checkCompatibility'' = ''checkCompatibility''"
    by simp
  note dict = build_request_url_item_id [THEN conjunct2, THEN conjunct1, rule_format]
  note none = build_request_url_item_id [THEN conjunct1, rule_format]
  have "self_request_dict (test_api\<lparr>self_request_dict := x\<rparr>) = x" for x
    by simp
  then show ?thesis
    by (simp add: dict [OF g] dict [OF c] none [OF c]
          test_api_def test_config_def test_env_def base_url_def HTTP_SSL_def
          str_int_def str_nat.simps)
qed

text \<open>
  Claim C4.  For a dictionary input, a verb other than \<^verbatim>\<open>searchByImage\<close> and
  \<^verbatim>\<open>checkCompatibility\<close> gets the empty body and a query mapping: every item of the
  query is a parameter of the input with its value encoded, and every parameter is in
  it but those the query builder filters out (a value \<^verbatim>\<open>None\<close>; \<^verbatim>\<open>item_id\<close> for
  \<^verbatim>\<open>getItem\<close>).  The two POST verbs get the whole input serialized by \<^verbatim>\<open>json.dumps\<close> as
  the body and the query \<^verbatim>\<open>None\<close>.  So no verb gets both a query and a body.
\<close>

theorem query_and_body_exclusive:
  "(verb \<noteq> ''searchByImage'' \<and> verb \<noteq> ''checkCompatibility'' \<longrightarrow>
      build_request_data E verb (PDict d) verb_attrs = ''''
      \<and> (\<exists>q. build_request_query E verb (PDict d) = Some q
             \<and> (\<forall>(key, val) \<in> set q. \<exists>v. (key, v) \<in> set d \<and> val = smart_encode E v)
             \<and> (\<forall>(key, v) \<in> set d.
                   v \<noteq> PNone \<and> (verb = ''getItem'' \<longrightarrow> key \<noteq> ''item_id'') \<longrightarrow>
                   (key, smart_encode E v) \<in> set q)))
   \<and> (verb = ''searchByImage'' \<or> verb = ''checkCompatibility'' \<longrightarrow>
      build_request_data E verb (PDict d) verb_attrs = json_dumps E (PDict d)
      \<and> build_request_query E verb (PDict d) = None)
   \<and> (build_request_query E verb (PDict d) = None
      \<or> build_request_data E verb (PDict d) verb_attrs = '''')"
proof (cases "verb = ''searchByImage'' \<or> verb = ''checkCompatibility''")
  case True
  then show ?thesis
    by (auto simp add: build_request_data_def build_request_query_def)
next
  case False
  then have data: "build_request_data E verb (PDict d) verb_attrs = ''''"
    by (simp add: build_request_data_def)
  from False have "build_request_query E verb (PDict d) =
      Some (map (\<lambda>(key, val). (key, smart_encode E val))
        (filter (\<lambda>(key, val).
           (verb \<notin> set [''getItem'', ''checkCompatibility''] \<or> key \<noteq> ''item_id'')
           \<and> val \<noteq> PNone) d))"
    by (simp add: build_request_query_def)
  moreover have "\<forall>(key, val) \<in> set (map (\<lambda>(key, val). (key, smart_encode E val))
        (filter (\<lambda>(key, val).
           (verb \<notin> set [''getItem'', ''checkCompatibility''] \<or> key \<noteq> ''item_id'')
           \<and> val \<noteq> PNone) d)). \<exists>v. (key, v) \<in> set d \<and> val = smart_encode E v"
    by auto
  moreover have "\<forall>(key, v) \<in> set d.
        v \<noteq> PNone \<and> (verb = ''getItem'' \<longrightarrow> key \<noteq> ''item_id'') \<longrightarrow>
        (key, smart_encode E v) \<in> set (map (\<lambda>(key, val). (key, smart_encode E val))
        (filter (\<lambda>(key, val).
           (verb \<notin> set [''getItem'', ''checkCompatibility''] \<or> key \<noteq> ''item_id'')
           \<and> val \<noteq> PNone) d))"
    using False by force
  ultimately have "\<exists>q. build_request_query E verb (PDict d) = Some q
             \<and> (\<forall>(key, val) \<in> set q. \<exists>v. (key, v) \<in> set d \<and> val = smart_encode E v)
             \<and> (\<forall>(key, v) \<in> set d.
                   v \<noteq> PNone \<and> (verb = ''getItem'' \<longrightarrow> key \<noteq> ''item_id'') \<longrightarrow>
                   (key, smart_encode E v) \<in> set q)"
    by blast
  with False data show ?thesis
    by blast
qed

theorem query_and_body_exclusive_witness:
  "build_request_data test_env ''search'' (PDict [(''q'', PStr ''test''), (''limit'', PInt 5)]) PNone = ''''
   \<and> build_request_query test_env ''search'' (PDict [(''q'', PStr ''test''), (''limit'', PInt 5)])
       = Some [(''q'', PStr ''test''), (''limit'', PInt 5)]
   \<and> build_request_data test_env ''searchByImage''
         (PDict [(''image'', PStr ''base64encodedimage''), (''limit'', PInt 5)]) PNone
       = json_dumps test_env (PDict [(''image'', PStr ''base64encodedimage''), (''limit'', PInt 5)])
   \<and> build_request_query test_env ''searchByImage''
         (PDict [(''image'', PStr ''base64encodedimage''), (''limit'', PInt 5)]) = None"
proof -
  have get: "''search'' \<noteq> ''searchByImage'' \<and> ''search'' \<noteq> ''checkCompatibility''"
    by simp
  have post: "''searchByImage'' = ''searchByImage'' \<or> ''searchByImage'' = ''checkCompatibility''"
    by simp
  note T = query_and_body_exclusive
  have 1: "build_request_data test_env ''search''
        (PDict [(''q'', PStr ''test''), (''limit'', PInt 5)]) PNone = ''''"
    using T [THEN conjunct1, rule_format, OF get] by (rule conjunct1)
  have 2: "build_request_data test_env ''searchByImage''
         (PDict [(''image'', PStr ''base64encodedimage''), (''limit'', PInt 5)]) PNone
       = json_dumps test_env (PDict [(''image'', PStr ''base64encodedimage''), (''limit'', PInt 5)])"
    using T [THEN conjunct2, THEN conjunct1, rule_format, OF post] by (rule conjunct1)
  have 3: "build_request_query test_env ''searchByImage''
         (PDict [(''image'', PStr ''base64encodedimage''), (''limit'', PInt 5)]) = None"
    using T [THEN conjunct2, THEN conjunct1, rule_format, OF post] by (rule conjunct2)
  have 4: "build_request_query test_env ''search'' (PDict [(''q'', PStr ''test''), (''limit'', PInt 5)])
       = Some [(''q'', PStr ''test''), (''limit'', PInt 5)]"
    by (simp add: build_request_query_def test_env_def)
  from 1 2 3 4 show ?thesis by simp
qed

text \<open>
  Claim C5 says that the query of \<^verbatim>\<open>getItem\<close> keeps every key other than \<^verbatim>\<open>item_id\<close>.
  A key whose value is \<^verbatim>\<open>None\<close> is not kept: for the input
  \<^verbatim>\<open>{item_id: 123, fieldgroups: None}\<close> the query is empty.
\<close>

theorem getItem_query_keeps_every_other_key_counterexample:
  "''fieldgroups'' \<in> fst ` set [(''item_id'', PInt 123), (''fieldgroups'', PNone)]
   \<and> ''fieldgroups'' \<noteq> ''item_id''
   \<and> build_request_query test_env ''getItem''
        (PDict [(''item_id'', PInt 123), (''fieldgroups'', PNone)]) = Some []"
  by (simp add: build_request_query_def)

text \<open>
  Claim C5, amended.  For the verb \<^verbatim>\<open>getItem\<close> and a dictionary input the query never has
  the key \<^verbatim>\<open>item_id\<close>, has every other key whose value is not \<^verbatim>\<open>None\<close> with that value
  encoded, and has no key that the input lacks; the input
  \<^verbatim>\<open>{item_id: 123, fieldgroups: PRODUCT}\<close> yields exactly \<^verbatim>\<open>{fieldgroups: PRODUCT}\<close>
  (the value as the encoder returns it).
\<close>

theorem getItem_query_excludes_item_id:
  "\<exists>q. build_request_query E ''getItem'' (PDict d) = Some q
     \<and> ''item_id'' \<notin> fst ` set q
     \<and> (\<forall>key val. (key, val) \<in> set d \<and> key \<noteq> ''item_id'' \<and> val \<noteq> PNone \<longrightarrow>
          (key, smart_encode E val) \<in> set q)
     \<and> (\<forall>key \<in> fst ` set q. key \<in> fst ` set d)
     \<and> (d = [(''item_id'', PInt 123), (''fieldgroups'', PStr ''PRODUCT'')] \<longrightarrow>
          q = [(''fieldgroups'', smart_encode E (PStr ''PRODUCT''))])"
  by (force simp add: build_request_query_def)

theorem getItem_query_excludes_item_id_witness:
  "build_request_query test_env ''getItem''
     (PDict [(''item_id'', PInt 123), (''fieldgroups'', PStr ''PRODUCT'')])
   = Some [(''fieldgroups'', PStr ''PRODUCT'')]
   \<and> build_request_query test_env ''getItem''
     (PDict [(''item_id'', PStr ''123456789''), (''fieldgroups'', PStr ''PRODUCT'')])
   = Some [(''fieldgroups'', PStr ''PRODUCT'')]"
proof -
  obtain q where q: "build_request_query test_env ''getItem''
        (PDict [(''item_id'', PInt 123), (''fieldgroups'', PStr ''PRODUCT'')]) = Some q"
      "[(''item_id'', PInt 123), (''fieldgroups'', PStr ''PRODUCT'')]
         = [(''item_id'', PInt 123), (''fieldgroups'', PStr ''PRODUCT'')] \<longrightarrow>
       q = [(''fieldgroups'', smart_encode test_env (PStr ''PRODUCT''))]"
    using getItem_query_excludes_item_id
      [of test_env "[(''item_id'', PInt 123), (''fieldgroups'', PStr ''PRODUCT'')]"]
    by blast
  then have "build_request_query test_env ''getItem''
     (PDict [(''item_id'', PInt 123), (''fieldgroups'', PStr ''PRODUCT'')])
   = Some [(''fieldgroups'', PStr ''PRODUCT'')]"
    by (simp add: test_env_def)
  moreover have "build_request_query test_env ''getItem''
     (PDict [(''item_id'', PStr ''123456789''), (''fieldgroups'', PStr ''PRODUCT'')])
   = Some [(''fieldgroups'', PStr ''PRODUCT'')]"
    by (simp add: build_request_query_def test_env_def)
  ultimately show ?thesis by simp
qed

lemma map_of_map_filter_distinct:
  "distinct (map fst d) \<Longrightarrow>
   map_of (map (\<lambda>(k, v). (k, f v)) (filter (\<lambda>(k, v). P k v) d)) key =
     (case map_of d key of
        None \<Rightarrow> None
      | Some v \<Rightarrow> if P key v then Some (f v) else None)"
proof (induction d)
  case Nil
  then show ?case by simp
next
  case (Cons kv d)
  obtain k v where kv: "kv = (k, v)"
    by (cases kv)
  from Cons.prems kv have notin: "k \<notin> fst ` set d" and dist: "distinct (map fst d)"
    by simp_all
  from notin have none: "map_of d k = None"
    by (simp add: map_of_eq_None_iff)
  have none': "map_of (map (\<lambda>(k, v). (k, f v)) (filter (\<lambda>(k, v). P k v) d)) k = None"
    using notin by (force simp add: map_of_eq_None_iff)
  show ?case
    using Cons.IH [OF dist] kv none none' by (cases "key = k") auto
qed

text \<open>
  Claim C10.  For a verb other than the two POST verbs and a dictionary input, the keys
  of the query are, in the order of the input, exactly the keys whose value is not
  \<^verbatim>\<open>None\<close> (without \<^verbatim>\<open>item_id\<close> when the verb is \<^verbatim>\<open>getItem\<close>), each with its value
  encoded.  Read as a mapping (the keys of a dictionary are distinct), the query maps
  such a key to the encoded value and no other key to anything; a parameter passed as
  \<^verbatim>\<open>None\<close> is not among its keys.
\<close>

theorem query_drops_None_values:
  assumes "verb \<noteq> ''searchByImage''" and "verb \<noteq> ''checkCompatibility''"
  shows
    "\<exists>q. build_request_query E verb (PDict d) = Some q
       \<and> map fst q =
           map fst (filter (\<lambda>(key, val). val \<noteq> PNone \<and> (verb = ''getItem'' \<longrightarrow> key \<noteq> ''item_id'')) d)
       \<and> (\<forall>key val'. (key, val') \<in> set q \<longleftrightarrow>
            (\<exists>val. (key, val) \<in> set d \<and> val \<noteq> PNone
               \<and> (verb = ''getItem'' \<longrightarrow> key \<noteq> ''item_id'') \<and> val' = smart_encode E val))
       \<and> (distinct (map fst d) \<longrightarrow>
            (\<forall>key. map_of q key =
               (case map_of d key of
                  None \<Rightarrow> None
                | Some val \<Rightarrow>
                    if val \<noteq> PNone \<and> (verb = ''getItem'' \<longrightarrow> key \<noteq> ''item_id'')
                    then Some (smart_encode E val) else None))
            \<and> (\<forall>key. (key, PNone) \<in> set d \<longrightarrow> key \<notin> fst ` set q))"
proof -
  define keep where
    "keep = (\<lambda>(key, val). val \<noteq> PNone \<and> (verb = ''getItem'' \<longrightarrow> key \<noteq> ''item_id''))"
  define q where "q = map (\<lambda>(key, val). (key, smart_encode E val)) (filter keep d)"
  have keep_eq: "(\<lambda>(key, val).
       (verb \<notin> set [''getItem'', ''checkCompatibility''] \<or> key \<noteq> ''item_id'') \<and> val \<noteq> PNone) = keep"
    using assms by (auto simp add: keep_def fun_eq_iff)
  have query: "build_request_query E verb (PDict d) = Some q"
    unfolding build_request_query_def keep_eq q_def using assms by simp
  have keys: "map fst q = map fst (filter keep d)"
    by (simp add: q_def case_prod_unfold comp_def)
  have items: "(key, val') \<in> set q \<longleftrightarrow>
      (\<exists>val. (key, val) \<in> set d \<and> val \<noteq> PNone
         \<and> (verb = ''getItem'' \<longrightarrow> key \<noteq> ''item_id'') \<and> val' = smart_encode E val)" for key val'
    by (auto simp add: q_def keep_def)
  have lookup: "map_of q key =
      (case map_of d key of
         None \<Rightarrow> None
       | Some val \<Rightarrow>
           if val \<noteq> PNone \<and> (verb = ''getItem'' \<longrightarrow> key \<noteq> ''item_id'')
           then Some (smart_encode E val) else None)" if "distinct (map fst d)" for key
    using map_of_map_filter_distinct
      [OF that, of "smart_encode E" "\<lambda>key val. val \<noteq> PNone \<and> (verb = ''getItem'' \<longrightarrow> key \<noteq> ''item_id'')" key]
    by (simp add: q_def keep_def)
  have dropped: "key \<notin> fst ` set q" if "distinct (map fst d)" "(key, PNone) \<in> set d" for key
  proof -
    from that have "map_of d key = Some PNone"
      by simp
    with lookup [OF that(1), of key] have "map_of q key = None"
      by simp
    then show ?thesis
      by (simp add: map_of_eq_None_iff)
  qed
  show ?thesis
  proof (intro exI conjI impI allI)
    show "build_request_query E verb (PDict d) = Some q"
      by (rule query)
    show "map fst q =
        map fst (filter (\<lambda>(key, val). val \<noteq> PNone \<and> (verb = ''getItem'' \<longrightarrow> key \<noteq> ''item_id'')) d)"
      using keys by (simp only: keep_def)
    show "(key, val') \<in> set q \<longleftrightarrow>
      (\<exists>val. (key, val) \<in> set d \<and> val \<noteq> PNone
         \<and> (verb = ''getItem'' \<longrightarrow> key \<noteq> ''item_id'') \<and> val' = smart_encode E val)" for key val'
      by (rule items)
    show "map_of q key =
      (case map_of d key of
         None \<Rightarrow> None
       | Some val \<Rightarrow>
           if val \<noteq> PNone \<and> (verb = ''getItem'' \<longrightarrow> key \<noteq> ''item_id'')
           then Some (smart_encode E val) else None)" if "distinct (map fst d)" for key
      using that by (rule lookup)
    show "key \<notin> fst ` set q" if "distinct (map fst d)" "(key, PNone) \<in> set d" for key
      using that by (rule dropped)
  qed
qed

theorem query_drops_None_values_witness:
  "''getItem'' \<noteq> ''searchByImage'' \<and> ''getItem'' \<noteq> ''checkCompatibility''
   \<and> distinct (map fst [(''item_id'', PStr ''123456789''), (''fieldgroups'', PNone), (''q'', PStr ''test'')])
   \<and> build_request_query test_env ''getItem''
        (PDict [(''item_id'', PStr ''123456789''), (''fieldgroups'', PNone), (''q'', PStr ''test'')])
      = Some [(''q'', PStr ''test'')]
   \<and> (\<exists>q. build_request_query test_env ''search''
        (PDict [(''item_id'', PStr ''123456789''), (''fieldgroups'', PNone), (''q'', PStr ''test'')])
      = Some q \<and> map fst q = [''item_id'', ''q''] \<and> ''fieldgroups'' \<notin> fst ` set q
        \<and> map_of q ''q'' = Some (PStr ''test''))"
proof -
  have 1: "''getItem'' \<noteq> ''searchByImage''" and 2: "''getItem'' \<noteq> ''checkCompatibility''"
    and 3: "''search'' \<noteq> ''searchByImage''" and 4: "''search'' \<noteq> ''checkCompatibility''"
    by simp_all
  have 5: "distinct (map fst [(''item_id'', PStr ''123456789''), (''fieldgroups'', PNone), (''q'', PStr ''test'')])"
    by simp
  obtain q where q: "build_request_query test_env ''getItem''
        (PDict [(''item_id'', PStr ''123456789''), (''fieldgroups'', PNone), (''q'', PStr ''test'')]) = Some q"
      "\<forall>key. map_of q key =
         (case map_of [(''item_id'', PStr ''123456789''), (''fieldgroups'', PNone), (''q'', PStr ''test'')] key of
            None \<Rightarrow> None
          | Some val \<Rightarrow>
              if val \<noteq> PNone \<and> (''getItem'' = ''getItem'' \<longrightarrow> key \<noteq> ''item_id'')
              then Some (smart_encode test_env val) else None)"
      "map fst q = map fst (filter (\<lambda>(key, val). val \<noteq> PNone \<and> (''getItem'' = ''getItem'' \<longrightarrow> key \<noteq> ''item_id''))
          [(''item_id'', PStr ''123456789''), (''fieldgroups'', PNone), (''q'', PStr ''test'')])"
    using query_drops_None_values [OF 1 2, of test_env
        "[(''item_id'', PStr ''123456789''), (''fieldgroups'', PNone), (''q'', PStr ''test'')]"] 5
    by blast
  from q(3) have "map fst q = [''q'']"
    by simp
  then obtain v where "q = [(''q'', v)]"
    by (cases q) auto
  moreover from q(2) have "map_of q ''q'' = Some (PStr ''test'')"
    by (simp add: test_env_def)
  ultimately have "q = [(''q'', PStr ''test'')]"
    by simp
  with q(1) have a: "build_request_query test_env ''getItem''
        (PDict [(''item_id'', PStr ''123456789''), (''fieldgroups'', PNone), (''q'', PStr ''test'')])
      = Some [(''q'', PStr ''test'')]"
    by simp
  obtain q' where q': "build_request_query test_env ''search''
        (PDict [(''item_id'', PStr ''123456789''), (''fieldgroups'', PNone), (''q'', PStr ''test'')]) = Some q'"
      "\<forall>key. map_of q' key =
         (case map_of [(''item_id'', PStr ''123456789''), (''fieldgroups'', PNone), (''q'', PStr ''test'')] key of
            None \<Rightarrow> None
          | Some val \<Rightarrow>
              if val \<noteq> PNone \<and> (''search'' = ''getItem'' \<longrightarrow> key \<noteq> ''item_id'')
              then Some (smart_encode test_env val) else None)"
      "map fst q' = map fst (filter (\<lambda>(key, val). val \<noteq> PNone \<and> (''search'' = ''getItem'' \<longrightarrow> key \<noteq> ''item_id''))
          [(''item_id'', PStr ''123456789''), (''fieldgroups'', PNone), (''q'', PStr ''test'')])"
      "\<forall>key. (key, PNone) \<in> set [(''item_id'', PStr ''123456789''), (''fieldgroups'', PNone), (''q'', PStr ''test'')]
          \<longrightarrow> key \<notin> fst ` set q'"
    using query_drops_None_values [OF 3 4, of test_env
        "[(''item_id'', PStr ''123456789''), (''fieldgroups'', PNone), (''q'', PStr ''test'')]"] 5
    by blast
  from q'(3) have k: "map fst q' = [''item_id'', ''q'']"
    by simp
  from q'(4) have n: "''fieldgroups'' \<notin> fst ` set q'"
    by simp
  from q'(2) have m: "map_of q' ''q'' = Some (PStr ''test'')"
    by (simp add: test_env_def)
  from q'(1) k n m have "\<exists>q. build_request_query test_env ''search''
        (PDict [(''item_id'', PStr ''123456789''), (''fieldgroups'', PNone), (''q'', PStr ''test'')])
      = Some q \<and> map fst q = [''item_id'', ''q''] \<and> ''fieldgroups'' \<notin> fst ` set q
        \<and> map_of q ''q'' = Some (PStr ''test'')"
    by (intro exI [of _ q'] conjI)
  with 1 2 5 a show ?thesis
    by (intro conjI)
qed

section \<open>The token cache\<close>

text \<open>
  Claim C1.  The accessor is a lazy cache.  When a token is cached and not expired, it
  returns what \<^verbatim>\<open>self._token['access_token']\<close> gives for that token and leaves the whole
  connection as it was: no token request is sent and the cached token stays.  A token
  request is sent, or the cached token replaced, only when no token is cached or the
  cached one is expired.  In that case, with both credentials set, exactly one request
  is sent: a client-credentials request to the token endpoint of the domain, with the
  application id as client id and the certificate id as client secret; when it is
  answered with a token, that token becomes the cached one and its \<^verbatim>\<open>access_token\<close>
  is returned.
\<close>

theorem access_token_lazy_cache:
  "(\<forall>t. self_token self = Some t \<and> \<not> is_expired E t \<longrightarrow>
       access_token E self = (py_getitem (PDict t) ''access_token'', self))
   \<and> (token_requests (snd (access_token E self)) \<noteq> token_requests self
        \<or> self_token (snd (access_token E self)) \<noteq> self_token self \<longrightarrow>
      self_token self = None \<or> (\<exists>t. self_token self = Some t \<and> is_expired E t))
   \<and> ((self_token self = None \<or> (\<exists>t. self_token self = Some t \<and> is_expired E t))
       \<and> truthy (cfg_appid (self_config self)) \<and> truthy (cfg_certid (self_config self)) \<longrightarrow>
      (\<exists>rq. rq = token_request (self_config self)
                  (cfg_appid (self_config self)) (cfg_certid (self_config self))
         \<and> token_requests (snd (access_token E self)) = token_requests self @ [rq]
         \<and> oa_grant_type rq = ''client_credentials''
         \<and> oa_client_id rq = cfg_appid (self_config self)
         \<and> oa_client_secret rq = cfg_certid (self_config self)
         \<and> oa_url rq = ''https://'' @ cfg_domain (self_config self) @ ''/identity/v1/oauth2/token''
         \<and> (\<forall>t'. fetch_token E rq = Fetched t' \<longrightarrow>
               access_token E self =
                 (py_getitem (PDict t') ''access_token'',
                  self\<lparr>token_requests := token_requests self @ [rq], self_token := Some t'\<rparr>))))"
proof (intro conjI allI impI)
  fix t
  assume "self_token self = Some t \<and> \<not> is_expired E t"
  then show "access_token E self = (py_getitem (PDict t) ''access_token'', self)"
    by (simp add: access_token_def needs_refresh_def token_field_def)
next
  assume changed: "token_requests (snd (access_token E self)) \<noteq> token_requests self
        \<or> self_token (snd (access_token E self)) \<noteq> self_token self"
  show "self_token self = None \<or> (\<exists>t. self_token self = Some t \<and> is_expired E t)"
  proof (rule ccontr)
    assume "\<not> (self_token self = None \<or> (\<exists>t. self_token self = Some t \<and> is_expired E t))"
    then have "\<not> needs_refresh E self"
      by (auto simp add: needs_refresh_def split: option.splits)
    then have "snd (access_token E self) = self"
      by (simp add: access_token_def)
    with changed show False
      by simp
  qed
next
  assume a: "(self_token self = None \<or> (\<exists>t. self_token self = Some t \<and> is_expired E t))
       \<and> truthy (cfg_appid (self_config self)) \<and> truthy (cfg_certid (self_config self))"
  define rq where "rq = token_request (self_config self)
      (cfg_appid (self_config self)) (cfg_certid (self_config self))"
  from a have need: "needs_refresh E self"
    by (auto simp add: needs_refresh_def)
  have sent: "token_requests (snd (access_token E self)) = token_requests self @ [rq]"
    using a need
    by (simp add: access_token_def refresh_token_def Let_def rq_def split: fetch_outcome.splits)
  have fetched: "access_token E self =
                 (py_getitem (PDict t') ''access_token'',
                  self\<lparr>token_requests := token_requests self @ [rq], self_token := Some t'\<rparr>)"
    if "fetch_token E rq = Fetched t'" for t'
    using a need that
    by (simp add: access_token_def refresh_token_def Let_def rq_def [symmetric] token_field_def)
  show "\<exists>rq. rq = token_request (self_config self)
                  (cfg_appid (self_config self)) (cfg_certid (self_config self))
         \<and> token_requests (snd (access_token E self)) = token_requests self @ [rq]
         \<and> oa_grant_type rq = ''client_credentials''
         \<and> oa_client_id rq = cfg_appid (self_config self)
         \<and> oa_client_secret rq = cfg_certid (self_config self)
         \<and> oa_url rq = ''https://'' @ cfg_domain (self_config self) @ ''/identity/v1/oauth2/token''
         \<and> (\<forall>t'. fetch_token E rq = Fetched t' \<longrightarrow>
               access_token E self =
                 (py_getitem (PDict t') ''access_token'',
                  self\<lparr>token_requests := token_requests self @ [rq], self_token := Some t'\<rparr>))"
  proof (intro exI [of _ rq] conjI allI impI)
    show "token_requests (snd (access_token E self)) = token_requests self @ [rq]"
      by (rule sent)
  qed (use fetched in \<open>simp_all add: rq_def token_request_def\<close>)
qed

theorem access_token_lazy_cache_witness:
  "self_token test_api = Some [(''access_token'', PStr ''test_token'')]
   \<and> \<not> is_expired test_env [(''access_token'', PStr ''test_token'')]
   \<and> access_token test_env test_api = (Inr (PStr ''test_token''), test_api)
   \<and> self_token (test_api\<lparr>self_token := None\<rparr>) = None
   \<and> truthy (cfg_appid (self_config test_api)) \<and> truthy (cfg_certid (self_config test_api))
   \<and> access_token test_env (test_api\<lparr>self_token := None\<rparr>) =
       (Inr (PStr ''new_token''),
        test_api\<lparr>token_requests :=
                    [token_request test_config (PStr ''test_appid'') (PStr ''test_certid'')],
                 self_token := Some [(''access_token'', PStr ''new_token'')]\<rparr>)
   \<and> is_expired (test_env\<lparr>is_expired := \<lambda>t. True\<rparr>) [(''access_token'', PStr ''test_token'')]
   \<and> access_token (test_env\<lparr>is_expired := \<lambda>t. True\<rparr>) test_api =
       (Inr (PStr ''new_token''),
        test_api\<lparr>token_requests :=
                    [token_request test_config (PStr ''test_appid'') (PStr ''test_certid'')],
                 self_token := Some [(''access_token'', PStr ''new_token'')]\<rparr>)
   \<and> token_requests (snd (access_token test_env (test_api\<lparr>self_token := None\<rparr>)))
       \<noteq> token_requests (test_api\<lparr>self_token := None\<rparr>)"
proof -
  have cached: "self_token test_api = Some [(''access_token'', PStr ''test_token'')]
      \<and> \<not> is_expired test_env [(''access_token'', PStr ''test_token'')]"
    by (simp add: test_api_def test_env_def)
  have 1: "access_token test_env test_api = (Inr (PStr ''test_token''), test_api)"
    using access_token_lazy_cache [THEN conjunct1, rule_format, OF cached]
    by simp
  have absent: "(self_token (test_api\<lparr>self_token := None\<rparr>) = None
        \<or> (\<exists>t. self_token (test_api\<lparr>self_token := None\<rparr>) = Some t \<and> is_expired test_env t))
      \<and> truthy (cfg_appid (self_config (test_api\<lparr>self_token := None\<rparr>)))
      \<and> truthy (cfg_certid (self_config (test_api\<lparr>self_token := None\<rparr>)))"
    by (simp add: test_api_def test_config_def)
  have 2: "access_token test_env (test_api\<lparr>self_token := None\<rparr>) =
       (Inr (PStr ''new_token''),
        test_api\<lparr>token_requests :=
                    [token_request test_config (PStr ''test_appid'') (PStr ''test_certid'')],
                 self_token := Some [(''access_token'', PStr ''new_token'')]\<rparr>)"
    using access_token_lazy_cache [THEN conjunct2, THEN conjunct2, rule_format, OF absent]
    by (simp add: test_api_def test_config_def test_env_def)
  have expired: "(self_token test_api = None
        \<or> (\<exists>t. self_token test_api = Some t \<and> is_expired (test_env\<lparr>is_expired := \<lambda>t. True\<rparr>) t))
      \<and> truthy (cfg_appid (self_config test_api))
      \<and> truthy (cfg_certid (self_config test_api))"
    by (simp add: test_api_def test_config_def)
  have 3: "access_token (test_env\<lparr>is_expired := \<lambda>t. True\<rparr>) test_api =
       (Inr (PStr ''new_token''),
        test_api\<lparr>token_requests :=
                    [token_request test_config (PStr ''test_appid'') (PStr ''test_certid'')],
                 self_token := Some [(''access_token'', PStr ''new_token'')]\<rparr>)"
    using access_token_lazy_cache [THEN conjunct2, THEN conjunct2, rule_format, OF expired]
    by (simp add: test_api_def test_config_def test_env_def)
  have changed: "token_requests (snd (access_token test_env (test_api\<lparr>self_token := None\<rparr>)))
       \<noteq> token_requests (test_api\<lparr>self_token := None\<rparr>)"
    unfolding 2 by (simp add: test_api_def)
  then have "token_requests (snd (access_token test_env (test_api\<lparr>self_token := None\<rparr>)))
       \<noteq> token_requests (test_api\<lparr>self_token := None\<rparr>)
     \<or> self_token (snd (access_token test_env (test_api\<lparr>self_token := None\<rparr>)))
       \<noteq> self_token (test_api\<lparr>self_token := None\<rparr>)"
    by simp
  from access_token_lazy_cache [THEN conjunct2, THEN conjunct1, rule_format, OF this]
  have 4: "self_token (test_api\<lparr>self_token := None\<rparr>) = None"
    by simp
  from cached 1 2 3 4 changed show ?thesis
    by (simp add: test_api_def test_config_def)
qed

text \<open>
  Claim C6.  When a refresh is needed (no cached token, or an expired one): if the
  application id or the certificate id is missing (\<^verbatim>\<open>None\<close> or empty), the accessor raises
  the \<^verbatim>\<open>ValueError\<close> and the connection is as before, so no token request has been
  sent, whatever the token endpoint would have answered.  With both set, a token
  request that ends in an \<^verbatim>\<open>OAuth2Error\<close> or a \<^verbatim>\<open>RequestException\<close> makes the accessor raise
  a \<^verbatim>\<open>ConnectionError\<close> whose message ends with the text of that exception; the one
  request is recorded and the cached token is not touched.
\<close>

theorem access_token_failures:
  assumes "self_token self = None \<or> (\<exists>t. self_token self = Some t \<and> is_expired E t)"
  shows
    "(\<not> truthy (cfg_appid (self_config self)) \<or> \<not> truthy (cfg_certid (self_config self)) \<longrightarrow>
        access_token E self =
          (Inl (ValueError ''appid (client id) and certid (client secret) are required for OAuth''), self)
        \<and> token_requests (snd (access_token E self)) = token_requests self)
     \<and> (truthy (cfg_appid (self_config self)) \<and> truthy (cfg_certid (self_config self)) \<longrightarrow>
        (\<forall>e. fetch_token E (token_request (self_config self)
                  (cfg_appid (self_config self)) (cfg_certid (self_config self))) = OAuth2Error e
              \<or> fetch_token E (token_request (self_config self)
                  (cfg_appid (self_config self)) (cfg_certid (self_config self))) = RequestException e
           \<longrightarrow> access_token E self =
                 (Inl (ConnectionError (''Failed to get access token: '' @ e)),
                  self\<lparr>token_requests := token_requests self @
                     [token_request (self_config self)
                        (cfg_appid (self_config self)) (cfg_certid (self_config self))]\<rparr>)))"
proof -
  from assms have need: "needs_refresh E self"
    by (auto simp add: needs_refresh_def)
  show ?thesis
    using need by (auto simp add: access_token_def refresh_token_def Let_def)
qed

theorem access_token_failures_witness:
  "self_token (test_api\<lparr>self_token := None\<rparr>) = None
   \<and> access_token (test_env\<lparr>fetch_token := \<lambda>rq. OAuth2Error ''invalid_client''\<rparr>)
        (test_api\<lparr>self_token := None\<rparr>) =
       (Inl (ConnectionError ''Failed to get access token: invalid_client''),
        test_api\<lparr>self_token := None,
                 token_requests :=
                    [token_request test_config (PStr ''test_appid'') (PStr ''test_certid'')]\<rparr>)
   \<and> access_token (test_env\<lparr>fetch_token := \<lambda>rq. RequestException ''timed out''\<rparr>)
        (test_api\<lparr>self_token := None\<rparr>) =
       (Inl (ConnectionError ''Failed to get access token: timed out''),
        test_api\<lparr>self_token := None,
                 token_requests :=
                    [token_request test_config (PStr ''test_appid'') (PStr ''test_certid'')]\<rparr>)
   \<and> access_token test_env
        (test_api\<lparr>self_token := None,
                  self_config := test_config\<lparr>cfg_appid := PNone, cfg_certid := PNone\<rparr>\<rparr>) =
       (Inl (ValueError ''appid (client id) and certid (client secret) are required for OAuth''),
        test_api\<lparr>self_token := None,
                  self_config := test_config\<lparr>cfg_appid := PNone, cfg_certid := PNone\<rparr>\<rparr>)
   \<and> access_token test_env
        (test_api\<lparr>self_token := None, self_config := test_config\<lparr>cfg_certid := PStr []\<rparr>\<rparr>) =
       (Inl (ValueError ''appid (client id) and certid (client secret) are required for OAuth''),
        test_api\<lparr>self_token := None, self_config := test_config\<lparr>cfg_certid := PStr []\<rparr>\<rparr>)"
proof -
  note T = access_token_failures
  have n1: "self_token (test_api\<lparr>self_token := None\<rparr>) = None
      \<or> (\<exists>t. self_token (test_api\<lparr>self_token := None\<rparr>) = Some t \<and> is_expired E t)" for E
    by simp
  have n2: "self_token (test_api\<lparr>self_token := None, self_config := c\<rparr>) = None
      \<or> (\<exists>t. self_token (test_api\<lparr>self_token := None, self_config := c\<rparr>) = Some t
            \<and> is_expired E t)" for E c
    by simp
  have 1: "access_token (test_env\<lparr>fetch_token := \<lambda>rq. OAuth2Error ''invalid_client''\<rparr>)
        (test_api\<lparr>self_token := None\<rparr>) =
       (Inl (ConnectionError ''Failed to get access token: invalid_client''),
        test_api\<lparr>self_token := None,
                 token_requests :=
                    [token_request test_config (PStr ''test_appid'') (PStr ''test_certid'')]\<rparr>)"
    using T [OF n1, THEN conjunct2, rule_format,
        of "test_env\<lparr>fetch_token := \<lambda>rq. OAuth2Error ''invalid_client''\<rparr>" "''invalid_client''"]
    by (simp add: test_api_def test_config_def)
  have 2: "access_token (test_env\<lparr>fetch_token := \<lambda>rq. RequestException ''timed out''\<rparr>)
        (test_api\<lparr>self_token := None\<rparr>) =
       (Inl (ConnectionError ''Failed to get access token: timed out''),
        test_api\<lparr>self_token := None,
                 token_requests :=
                    [token_request test_config (PStr ''test_appid'') (PStr ''test_certid'')]\<rparr>)"
    using T [OF n1, THEN conjunct2, rule_format,
        of "test_env\<lparr>fetch_token := \<lambda>rq. RequestException ''timed out''\<rparr>" "''timed out''"]
    by (simp add: test_api_def test_config_def)
  have 3: "access_token test_env
        (test_api\<lparr>self_token := None,
                  self_config := test_config\<lparr>cfg_appid := PNone, cfg_certid := PNone\<rparr>\<rparr>) =
       (Inl (ValueError ''appid (client id) and certid (client secret) are required for OAuth''),
        test_api\<lparr>self_token := None,
                  self_config := test_config\<lparr>cfg_appid := PNone, cfg_certid := PNone\<rparr>\<rparr>)"
    using T [OF n2, THEN conjunct1, rule_format, THEN conjunct1,
        of "test_config\<lparr>cfg_appid := PNone, cfg_certid := PNone\<rparr>" test_env]
    by simp
  have 4: "access_token test_env
        (test_api\<lparr>self_token := None, self_config := test_config\<lparr>cfg_certid := PStr []\<rparr>\<rparr>) =
       (Inl (ValueError ''appid (client id) and certid (client secret) are required for OAuth''),
        test_api\<lparr>self_token := None, self_config := test_config\<lparr>cfg_certid := PStr []\<rparr>\<rparr>)"
    using T [OF n2, THEN conjunct1, rule_format, THEN conjunct1,
        of "test_config\<lparr>cfg_certid := PStr []\<rparr>" test_env]
    by simp
  from 1 2 3 4 show ?thesis
    by simp
qed

section \<open>Errors and warnings of a response\<close>

text \<open>
  The stored error list is assigned in one place, line 221, which the extractor reaches
  only past the guard of line 193, that is with a verb set and a response of status 200.
  The other methods leave the list, and the response, as they are.  So along every
  sequence of calls that starts with no errors stored, the list is empty unless the
  connection has a verb and its response has status 200.
\<close>

lemma get_resp_body_errors_stored:
  assumes "self_resp_body_errors self = []"
  shows "stored_after_200 (snd (get_resp_body_errors E self))"
  using assms
  by (auto simp add: get_resp_body_errors_def stored_after_200_def Let_def
           split: option.splits sum.splits prod.splits)

lemma perform_stored_after_200:
  assumes "stored_after_200 self"
  shows "stored_after_200 (perform E operation self)"
proof (cases operation)
  case (BuildRequest verb data verb_attrs files)
  from build_request_state [of E self verb data verb_attrs files]
  obtain reqs tok request where
    "snd (build_request E self verb data verb_attrs files)
     = self\<lparr>self_verb := Some verb, self_request_dict := data,
            self_method := (if verb \<in> set [''searchByImage'', ''checkCompatibility'']
                            then ''POST'' else ''GET''),
            self_token := tok, token_requests := reqs, self_request := request\<rparr>"
    by blast
  with assms BuildRequest show ?thesis
    by (auto simp add: stored_after_200_def)
next
  case (BuildRequestHeaders verb)
  from build_request_headers_state [of E self verb]
  obtain reqs tok where
    "snd (build_request_headers E self verb) = self\<lparr>self_token := tok, token_requests := reqs\<rparr>"
    by blast
  with assms BuildRequestHeaders show ?thesis
    by (auto simp add: stored_after_200_def)
next
  case AccessToken
  from access_token_state [of E self]
  obtain reqs tok where
    "snd (access_token E self) = self\<lparr>self_token := tok, token_requests := reqs\<rparr>"
    by blast
  with assms AccessToken show ?thesis
    by (auto simp add: stored_after_200_def)
next
  case (ProcessResponse parse_response)
  with assms show ?thesis
    by (auto simp add: stored_after_200_def process_response_def split: option.splits)
next
  case GetRespBodyErrors
  show ?thesis
  proof (cases "self_resp_body_errors self = []")
    case True
    with GetRespBodyErrors show ?thesis
      by (simp add: get_resp_body_errors_stored)
  next
    case False
    then have "snd (get_resp_body_errors E self) = self"
      by (simp add: get_resp_body_errors_def)
    with assms GetRespBodyErrors show ?thesis
      by simp
  qed
qed

lemma run_stored_after_200:
  "stored_after_200 self \<Longrightarrow> stored_after_200 (run E operations self)"
  by (induction operations arbitrary: self) (simp_all add: perform_stored_after_200)

lemma perform_response: "self_response (perform E operation self) = self_response self"
proof (cases operation)
  case (BuildRequest verb data verb_attrs files)
  from build_request_state [of E self verb data verb_attrs files]
  obtain reqs tok request where
    "snd (build_request E self verb data verb_attrs files)
     = self\<lparr>self_verb := Some verb, self_request_dict := data,
            self_method := (if verb \<in> set [''searchByImage'', ''checkCompatibility'']
                            then ''POST'' else ''GET''),
            self_token := tok, token_requests := reqs, self_request := request\<rparr>"
    by blast
  with BuildRequest show ?thesis by simp
next
  case (BuildRequestHeaders verb)
  from build_request_headers_state [of E self verb]
  obtain reqs tok where
    "snd (build_request_headers E self verb) = self\<lparr>self_token := tok, token_requests := reqs\<rparr>"
    by blast
  with BuildRequestHeaders show ?thesis by simp
next
  case AccessToken
  from access_token_state [of E self]
  obtain reqs tok where
    "snd (access_token E self) = self\<lparr>self_token := tok, token_requests := reqs\<rparr>"
    by blast
  with AccessToken show ?thesis by simp
next
  case (ProcessResponse parse_response)
  then show ?thesis
    by (simp add: process_response_def split: option.splits)
next
  case GetRespBodyErrors
  then show ?thesis
    by (auto simp add: get_resp_body_errors_def Let_def
             split: option.splits sum.splits prod.splits)
qed

lemma run_response: "self_response (run E operations self) = self_response self"
  by (induction operations arbitrary: self) (simp_all add: perform_response)

text \<open>
  Claim C7.  Take a connection on which no errors are stored and let the methods of the
  module run on it, any of them, in any order and any number of times (none at all
  included, so this is about every connection with no errors stored, whether or not it
  has a verb).  If the response of the connection then has a status other than 200,
  \<^verbatim>\<open>process_response\<close> returns normally with the reason phrase stored in
  \<^verbatim>\<open>_response_error\<close> and nothing else changed, and the extractor
  \<^verbatim>\<open>_get_resp_body_errors\<close> returns the empty list and leaves the connection unchanged,
  before and after \<^verbatim>\<open>process_response\<close>.  The body is never read: nothing is assumed of
  it, so this holds also for a body that is not JSON.
\<close>

theorem non_200_response:
  assumes "self_resp_body_errors self0 = []"
    and "self = run E operations self0"
    and "self_response self = Some r"
    and "status_code r \<noteq> 200"
  shows
    "process_response self parse_response = Inr (self\<lparr>self_response_error := Some (reason r)\<rparr>)
     \<and> get_resp_body_errors E self = (Inr [], self)
     \<and> get_resp_body_errors E (self\<lparr>self_response_error := Some (reason r)\<rparr>)
         = (Inr [], self\<lparr>self_response_error := Some (reason r)\<rparr>)"
proof -
  from assms(1) have "stored_after_200 self0"
    by (simp add: stored_after_200_def)
  then have "stored_after_200 self"
    unfolding assms(2) by (rule run_stored_after_200)
  with assms(3,4) have none_stored: "self_resp_body_errors self = []"
    by (auto simp add: stored_after_200_def)
  from assms(3,4) have "process_response self parse_response
      = Inr (self\<lparr>self_response_error := Some (reason r)\<rparr>)"
    by (simp add: process_response_def)
  moreover have "get_resp_body_errors E s = (Inr [], s)"
    if "self_resp_body_errors s = []" and "self_response s = Some r" for s
    using that assms(4) by (cases "self_verb s") (simp_all add: get_resp_body_errors_def)
  note this [of self] this [of "self\<lparr>self_response_error := Some (reason r)\<rparr>"]
  with none_stored assms(3)
  have "get_resp_body_errors E self = (Inr [], self)"
    and "get_resp_body_errors E (self\<lparr>self_response_error := Some (reason r)\<rparr>)
         = (Inr [], self\<lparr>self_response_error := Some (reason r)\<rparr>)"
    by simp_all
  ultimately show ?thesis
    by simp
qed

theorem non_200_response_witness:
  "self_resp_body_errors (test_api_received test_bad_request) = []
   \<and> status_code test_bad_request \<noteq> 200
   \<and> self_verb (run test_env [BuildRequest ''search'' (PDict [(''q'', PStr ''test'')]) PNone PNone]
         (test_api_received test_bad_request)) = Some ''search''
   \<and> self_response (run test_env [BuildRequest ''search'' (PDict [(''q'', PStr ''test'')]) PNone PNone]
         (test_api_received test_bad_request)) = Some test_bad_request
   \<and> process_response
        (run test_env [BuildRequest ''search'' (PDict [(''q'', PStr ''test'')]) PNone PNone]
           (test_api_received test_bad_request)) True
      = Inr ((run test_env [BuildRequest ''search'' (PDict [(''q'', PStr ''test'')]) PNone PNone]
               (test_api_received test_bad_request))\<lparr>self_response_error := Some ''Bad Request''\<rparr>)
   \<and> get_resp_body_errors test_env
        (run test_env [BuildRequest ''search'' (PDict [(''q'', PStr ''test'')]) PNone PNone]
           (test_api_received test_bad_request))
      = (Inr [], run test_env [BuildRequest ''search'' (PDict [(''q'', PStr ''test'')]) PNone PNone]
                   (test_api_received test_bad_request))
   \<and> self_verb (test_api_received test_bad_request) = None
   \<and> get_resp_body_errors test_env (test_api_received test_bad_request)
      = (Inr [], test_api_received test_bad_request)"
proof -
  define self0 where "self0 = test_api_received test_bad_request"
  define operations where
    "operations = [BuildRequest ''search'' (PDict [(''q'', PStr ''test'')]) PNone PNone]"
  define self where "self = run test_env operations self0"
  have stored: "self_resp_body_errors self0 = []"
    by (simp add: self0_def test_api_received_def test_api_def)
  have status: "status_code test_bad_request \<noteq> 200"
    by (simp add: test_bad_request_def)
  have reason: "reason test_bad_request = ''Bad Request''"
    by (simp add: test_bad_request_def)
  have response0: "self_response self0 = Some test_bad_request"
    by (simp add: self0_def test_api_received_def)
  have verb0: "self_verb self0 = None"
    by (simp add: self0_def test_api_received_def test_api_def)
  from build_request_state [of test_env self0 "''search''" "PDict [(''q'', PStr ''test'')]" PNone PNone]
  obtain reqs tok request where
    "self = self0\<lparr>self_verb := Some ''search'', self_request_dict := PDict [(''q'', PStr ''test'')],
            self_method := (if ''search'' \<in> set [''searchByImage'', ''checkCompatibility'']
                            then ''POST'' else ''GET''),
            self_token := tok, token_requests := reqs, self_request := request\<rparr>"
    unfolding self_def operations_def by auto
  then have verb: "self_verb self = Some ''search''"
    and response: "self_response self = Some test_bad_request"
    by (simp_all add: response0)
  have self0: "self0 = run test_env [] self0"
    by simp
  note built = non_200_response [OF stored self_def response status, of True]
  note fresh = non_200_response [OF stored self0 response0 status, of True]
  from built have 1: "process_response self True
      = Inr (self\<lparr>self_response_error := Some ''Bad Request''\<rparr>)"
    and 2: "get_resp_body_errors test_env self = (Inr [], self)"
    by (simp_all add: reason)
  from fresh have 3: "get_resp_body_errors test_env self0 = (Inr [], self0)"
    by simp
  from stored status verb response 1 2 verb0 3 show ?thesis
    unfolding self_def operations_def self0_def by (intro conjI)
qed

lemma collect_entries_dicts:
  "collect_entries E (map PDict ds) msgs resp_codes =
     Inr (msgs @ map (entry_message E) ds, record_codes resp_codes (map entry_code ds))"
  by (induction ds arbitrary: msgs resp_codes)
     (simp_all add: entry_message_def entry_code_def Let_def)

lemma record_codes_append:
  "record_codes resp_codes (xs @ ys) = record_codes (record_codes resp_codes xs) ys"
  by (induction xs arbitrary: resp_codes) simp_all

lemma get_resp_body_errors_200:
  assumes "self_resp_body_errors self = []"
    and "self_verb self = Some verb"
    and "self_response self = Some r"
    and "status_code r = 200"
    and "resp_json r = Some (PDict body)"
    and "dict_get body ''errors'' (PList []) = PList (map PDict eds)"
    and "dict_get body ''warnings'' (PList []) = PList (map PDict wds)"
  shows "get_resp_body_errors E self =
    (Inr (map (entry_message E) eds),
     self\<lparr>self_resp_body_warnings := map (entry_message E) wds,
          self_resp_body_errors := map (entry_message E) eds,
          self_resp_codes := record_codes [] (map entry_code eds @ map entry_code wds),
          logged := logged self
            @ (if cfg_warnings (self_config self) \<and> wds \<noteq> []
               then [(WARNING, log_line verb (map (entry_message E) wds))] else [])
            @ (if cfg_errors (self_config self) \<and> eds \<noteq> []
               then [(ERROR, log_line verb (map (entry_message E) eds))] else [])\<rparr>)"
  using assms
  by (simp add: get_resp_body_errors_def collect_entries_dicts record_codes_append Let_def)

text \<open>
  Claim C8 has the extractor return one message per entry of \<^verbatim>\<open>errors\<close> for every
  response of status 200.  On a connection that has built no request, \<^verbatim>\<open>self.verb\<close> is
  \<^verbatim>\<open>None\<close> and the guard of line 193 returns the empty list before the body is read.  The
  unit test \<^verbatim>\<open>test_get_resp_body_errors_with_errors\<close> runs the extractor on such a
  connection, with status 200 and a body of one error entry, and expects one message:
  the code returns none and leaves the connection as it was.  With the body of
  \<^verbatim>\<open>test_get_resp_body_errors_with_warnings\<close> the stored warnings list stays empty, where
  that test expects one entry.  On the same connection with the verb set, the body with
  one error entry gives the one message.
\<close>

theorem resp_body_errors_without_verb:
  "self_verb (test_api_received
       \<lparr>status_code = 200, reason = ''OK'', resp_json = Some (PDict test_errors_body)\<rparr>) = None
   \<and> dict_get test_errors_body ''errors'' (PList []) =
       PList [PDict [(''errorId'', PStr ''123''), (''message'', PStr ''Test error''),
                     (''category'', PStr ''ERROR'')]]
   \<and> get_resp_body_errors test_env
        (test_api_received
           \<lparr>status_code = 200, reason = ''OK'', resp_json = Some (PDict test_errors_body)\<rparr>)
      = (Inr [], test_api_received
           \<lparr>status_code = 200, reason = ''OK'', resp_json = Some (PDict test_errors_body)\<rparr>)
   \<and> dict_get test_warnings_body ''warnings'' (PList []) =
       PList [PDict [(''errorId'', PStr ''456''), (''message'', PStr ''Test warning''),
                     (''category'', PStr ''WARNING'')]]
   \<and> self_resp_body_warnings (snd (get_resp_body_errors test_env
        (test_api_received
           \<lparr>status_code = 200, reason = ''OK'', resp_json = Some (PDict test_warnings_body)\<rparr>)))
      = []
   \<and> test_api_with test_errors_body =
       (test_api_received
           \<lparr>status_code = 200, reason = ''OK'', resp_json = Some (PDict test_errors_body)\<rparr>)
         \<lparr>self_verb := Some ''search''\<rparr>
   \<and> fst (get_resp_body_errors test_env (test_api_with test_errors_body))
      = Inr [''Category: ERROR, Code: 123, Test error'']"
  by (simp add: get_resp_body_errors_def test_api_received_def test_api_with_def test_api_def
        test_config_def test_env_def test_errors_body_def test_warnings_body_def dict_get_def
        Let_def)

text \<open>
  Past the two guards.  Take a connection that has built a request (its verb is set), has
  no errors stored, and has received a response with status 200 whose JSON body is an
  object with \<^verbatim>\<open>errors\<close> and \<^verbatim>\<open>warnings\<close> each absent or an array of objects.  Then the
  extractor returns, and stores as the error list, one message
  \<^verbatim>\<open>Category: X, Code: Y, message\<close> per entry of \<^verbatim>\<open>errors\<close>, in order; the entries of
  \<^verbatim>\<open>warnings\<close> are formatted the same way into the stored warnings list and add nothing
  to the returned list.  So one error entry yields exactly one string, and a body with
  warnings only yields the empty error list.  Calling the extractor again on the
  resulting connection returns the same list.
\<close>

lemma resp_body_errors_200:
  assumes "self_resp_body_errors self = []"
    and "self_verb self = Some verb"
    and "self_response self = Some r"
    and "status_code r = 200"
    and "resp_json r = Some (PDict body)"
    and "dict_get body ''errors'' (PList []) = PList (map PDict eds)"
    and "dict_get body ''warnings'' (PList []) = PList (map PDict wds)"
  shows
    "fst (get_resp_body_errors E self) = Inr (map (entry_message E) eds)
     \<and> (\<forall>entry. entry_message E entry =
           ''Category: '' @ py_str (py_repr E) (dict_get entry ''category'' PNone)
           @ '', Code: '' @ py_str (py_repr E) (dict_get entry ''errorId'' PNone)
           @ '', '' @ py_str (py_repr E) (dict_get entry ''message'' PNone))
     \<and> self_resp_body_errors (snd (get_resp_body_errors E self)) = map (entry_message E) eds
     \<and> self_resp_body_warnings (snd (get_resp_body_errors E self)) = map (entry_message E) wds
     \<and> (\<forall>entry. eds = [entry] \<longrightarrow>
           fst (get_resp_body_errors E self) = Inr [entry_message E entry])
     \<and> (eds = [] \<longrightarrow> fst (get_resp_body_errors E self) = Inr [])
     \<and> fst (get_resp_body_errors E (snd (get_resp_body_errors E self)))
         = Inr (map (entry_message E) eds)"
proof -
  note first = get_resp_body_errors_200 [OF assms, of E]
  define self' where "self' = snd (get_resp_body_errors E self)"
  have cache: "self_resp_body_errors self' = map (entry_message E) eds"
    by (simp add: self'_def first)
  have again: "fst (get_resp_body_errors E self') = Inr (map (entry_message E) eds)"
  proof (cases "eds = []")
    case True
    with cache have "self_resp_body_errors self' = []"
      by simp
    moreover have "self_verb self' = Some verb" and "self_response self' = Some r"
      using assms(2,3) by (simp_all add: self'_def first)
    ultimately show ?thesis
      using get_resp_body_errors_200 [OF _ _ _ assms(4-7), of self' verb E] by simp
  next
    case False
    with cache show ?thesis
      by (simp add: get_resp_body_errors_def)
  qed
  from first cache again show ?thesis
    by (simp add: self'_def entry_message_def)
qed

text \<open>The bodies of the two unit tests, received after a \<^verbatim>\<open>search\<close> request.\<close>

lemma resp_body_errors_200_example:
  "self_resp_body_errors (test_api_with test_errors_body) = []
   \<and> self_verb (test_api_with test_errors_body) = Some ''search''
   \<and> dict_get test_errors_body ''errors'' (PList []) =
       PList (map PDict [[(''errorId'', PStr ''123''), (''message'', PStr ''Test error''),
                          (''category'', PStr ''ERROR'')]])
   \<and> dict_get test_errors_body ''warnings'' (PList []) = PList (map PDict [])
   \<and> fst (get_resp_body_errors test_env (test_api_with test_errors_body))
       = Inr [''Category: ERROR, Code: 123, Test error'']
   \<and> dict_get test_warnings_body ''errors'' (PList []) = PList (map PDict [])
   \<and> fst (get_resp_body_errors test_env (test_api_with test_warnings_body)) = Inr []
   \<and> self_resp_body_warnings (snd (get_resp_body_errors test_env (test_api_with test_warnings_body)))
       = [''Category: WARNING, Code: 456, Test warning'']"
proof -
  let ?r = "\<lambda>body. \<lparr>status_code = 200, reason = ''OK'', resp_json = Some (PDict body)\<rparr>"
  have h1: "self_resp_body_errors (test_api_with body) = []" for body
    by (simp add: test_api_with_def test_api_def)
  have h2: "self_verb (test_api_with body) = Some ''search''" for body
    by (simp add: test_api_with_def)
  have h3: "self_response (test_api_with body) = Some (?r body)" for body
    by (simp add: test_api_with_def)
  have h4: "status_code (?r body) = 200" for body
    by simp
  have h5: "resp_json (?r body) = Some (PDict body)" for body
    by simp
  have e6: "dict_get test_errors_body ''errors'' (PList []) =
       PList (map PDict [[(''errorId'', PStr ''123''), (''message'', PStr ''Test error''),
                          (''category'', PStr ''ERROR'')]])"
    by (simp add: test_errors_body_def dict_get_def)
  have e7: "dict_get test_errors_body ''warnings'' (PList []) = PList (map PDict [])"
    by (simp add: test_errors_body_def dict_get_def)
  have w6: "dict_get test_warnings_body ''errors'' (PList []) = PList (map PDict [])"
    by (simp add: test_warnings_body_def dict_get_def)
  have w7: "dict_get test_warnings_body ''warnings'' (PList []) =
       PList (map PDict [[(''errorId'', PStr ''456''), (''message'', PStr ''Test warning''),
                          (''category'', PStr ''WARNING'')]])"
    by (simp add: test_warnings_body_def dict_get_def)
  note E = resp_body_errors_200 [OF h1 h2 h3 h4 h5 e6 e7, of test_env]
  note W = resp_body_errors_200 [OF h1 h2 h3 h4 h5 w6 w7, of test_env]
  have 1: "fst (get_resp_body_errors test_env (test_api_with test_errors_body))
       = Inr [''Category: ERROR, Code: 123, Test error'']"
    using E [THEN conjunct1] by (simp add: entry_message_def dict_get_def)
  have 2: "fst (get_resp_body_errors test_env (test_api_with test_warnings_body)) = Inr []"
    using W [THEN conjunct1] by simp
  have 3: "self_resp_body_warnings
        (snd (get_resp_body_errors test_env (test_api_with test_warnings_body)))
       = [''Category: WARNING, Code: 456, Test warning'']"
    using W [THEN conjunct2, THEN conjunct2, THEN conjunct2, THEN conjunct1]
    by (simp add: entry_message_def dict_get_def)
  from h1 h2 e6 e7 1 w6 2 3 show ?thesis
    by (intro conjI)
qed

lemma py_sub_dict_iff:
  "py_sub_dict a b \<longleftrightarrow> (\<forall>(k, v) \<in> set a. \<exists>w. map_of b k = Some w \<and> py_eq v w)"
  by (induction a) (auto split: option.splits)

lemma py_eq_refl_aux:
  "wf_pyval x \<longrightarrow> py_eq x x"
  "wf_list xs \<longrightarrow> py_eq_list xs xs"
  "wf_items d \<longrightarrow> (\<forall>b. (\<forall>(k, v) \<in> set d. map_of b k = Some v) \<longrightarrow> py_sub_dict d b)"
  by (induction x and xs and d rule: wf_pyval_wf_list_wf_items.induct) auto

lemma py_eq_refl: "wf_pyval x \<Longrightarrow> py_eq x x"
  by (simp add: py_eq_refl_aux)

lemma py_sub_dict_lookup:
  "py_sub_dict b c \<Longrightarrow> map_of b k = Some w \<Longrightarrow> \<exists>u. map_of c k = Some u \<and> py_eq w u"
  by (auto simp add: py_sub_dict_iff dest: map_of_SomeD)

lemma py_eq_trans_aux:
  "\<forall>y z. py_eq x y \<longrightarrow> py_eq y z \<longrightarrow> py_eq x z"
  "\<forall>ys zs. py_eq_list xs ys \<longrightarrow> py_eq_list ys zs \<longrightarrow> py_eq_list xs zs"
  "\<forall>b c. py_sub_dict d b \<longrightarrow> py_sub_dict b c \<longrightarrow> py_sub_dict d c"
proof (induction x and xs and d rule: wf_pyval_wf_list_wf_items.induct)
  case (1 xs)
  show ?case
  proof (intro allI impI)
    fix y z
    assume "py_eq (PList xs) y" "py_eq y z"
    with 1 show "py_eq (PList xs) z"
      by (cases y; cases z) auto
  qed
next
  case (2 d)
  show ?case
  proof (intro allI impI)
    fix y z
    assume "py_eq (PDict d) y" "py_eq y z"
    with 2 show "py_eq (PDict d) z"
      by (cases y; cases z) auto
  qed
next
  case 3
  show ?case
  proof (intro allI impI)
    fix y z
    assume "py_eq PNone y" "py_eq y z"
    then show "py_eq PNone z"
      by (cases y; cases z) auto
  qed
next
  case (4 b)
  show ?case
  proof (intro allI impI)
    fix y z
    assume "py_eq (PBool b) y" "py_eq y z"
    then show "py_eq (PBool b) z"
      by (cases y; cases z) (auto split: if_splits)
  qed
next
  case (5 i)
  show ?case
  proof (intro allI impI)
    fix y z
    assume "py_eq (PInt i) y" "py_eq y z"
    then show "py_eq (PInt i) z"
      by (cases y; cases z) (auto split: if_splits)
  qed
next
  case (6 s)
  show ?case
  proof (intro allI impI)
    fix y z
    assume "py_eq (PStr s) y" "py_eq y z"
    then show "py_eq (PStr s) z"
      by (cases y; cases z) auto
  qed
next
  case 7
  show ?case
  proof (intro allI impI)
    fix ys zs
    assume "py_eq_list [] ys" "py_eq_list ys zs"
    then show "py_eq_list [] zs"
      by (cases ys; cases zs) auto
  qed
next
  case (8 x xs)
  show ?case
  proof (intro allI impI)
    fix ys zs
    assume "py_eq_list (x # xs) ys" "py_eq_list ys zs"
    with 8 show "py_eq_list (x # xs) zs"
      by (cases ys; cases zs) auto
  qed
next
  case 9
  show ?case by simp
next
  case (10 k v d)
  show ?case
  proof (intro allI impI)
    fix b c
    assume ab: "py_sub_dict ((k, v) # d) b" and bc: "py_sub_dict b c"
    from ab obtain w where w: "map_of b k = Some w" "py_eq v w" "py_sub_dict d b"
      by (auto split: option.splits)
    from py_sub_dict_lookup [OF bc w(1)] obtain u where u: "map_of c k = Some u" "py_eq w u"
      by blast
    from 10 w(2) u(2) have "py_eq v u"
      by blast
    moreover from 10 w(3) bc have "py_sub_dict d c"
      by blast
    ultimately show "py_sub_dict ((k, v) # d) c"
      using u(1) by simp
  qed
qed

lemma py_eq_trans: "py_eq x y \<Longrightarrow> py_eq y z \<Longrightarrow> py_eq x z"
  using py_eq_trans_aux(1) by blast

lemma wf_items_value: "wf_items d \<Longrightarrow> (k, v) \<in> set d \<Longrightarrow> wf_pyval v"
  by (induction d) auto

lemma wf_list_item: "wf_list xs \<Longrightarrow> x \<in> set xs \<Longrightarrow> wf_pyval x"
  by (induction xs) auto

lemma wf_dict_get: "wf_items d \<Longrightarrow> wf_pyval dflt \<Longrightarrow> wf_pyval (dict_get d key dflt)"
  by (auto simp add: dict_get_def split: option.splits dest: map_of_SomeD wf_items_value)

lemma entry_codes_wf:
  assumes "wf_pyval (PDict body)"
    and "dict_get body key (PList []) = PList (map PDict ds)"
    and "entry \<in> set ds"
  shows "wf_pyval (entry_code entry)"
proof -
  from assms(1) have "wf_items body"
    by simp
  then have "wf_pyval (dict_get body key (PList []))"
    by (rule wf_dict_get) simp
  with assms(2) have "wf_list (map PDict ds)"
    by simp
  moreover from assms(3) have "PDict entry \<in> set (map PDict ds)"
    by simp
  ultimately have "wf_pyval (PDict entry)"
    by (rule wf_list_item)
  then have "wf_items entry"
    by simp
  then show ?thesis
    unfolding entry_code_def by (rule wf_dict_get) simp
qed

lemma py_in_list_append: "py_in_list x (xs @ ys) \<longleftrightarrow> py_in_list x xs \<or> py_in_list x ys"
  by (auto simp add: py_in_list_def list_ex_iff)

lemma record_codes_extends:
  "\<exists>extra. record_codes resp_codes xs = resp_codes @ extra
     \<and> set extra \<subseteq> set xs \<and> (\<forall>y \<in> set extra. \<not> py_in_list y resp_codes)"
proof (induction xs arbitrary: resp_codes)
  case Nil
  then show ?case by simp
next
  case (Cons x xs)
  show ?case
  proof (cases "py_in_list x resp_codes")
    case True
    with Cons [of resp_codes] show ?thesis
      by auto
  next
    case False
    from Cons [of "resp_codes @ [x]"] obtain extra where
      e: "record_codes (resp_codes @ [x]) xs = (resp_codes @ [x]) @ extra"
        "set extra \<subseteq> set xs" "\<forall>y \<in> set extra. \<not> py_in_list y (resp_codes @ [x])"
      by blast
    have "record_codes resp_codes (x # xs) = resp_codes @ (x # extra)"
      using False e(1) by simp
    moreover have "set (x # extra) \<subseteq> set (x # xs)"
      using e(2) by auto
    moreover have "\<forall>y \<in> set (x # extra). \<not> py_in_list y resp_codes"
      using False e(3) by (auto simp add: py_in_list_append)
    ultimately show ?thesis
      by blast
  qed
qed

lemma pairwise_unequal_snoc:
  assumes "pairwise_unequal cs" and "\<not> py_in_list x cs"
  shows "pairwise_unequal (cs @ [x])"
  unfolding pairwise_unequal_def
proof (intro allI impI)
  fix i j
  assume ij: "i < j \<and> j < length (cs @ [x])"
  show "\<not> py_eq ((cs @ [x]) ! i) ((cs @ [x]) ! j)"
  proof (cases "j < length cs")
    case True
    with ij assms(1) show ?thesis
      by (simp add: pairwise_unequal_def nth_append)
  next
    case False
    with ij have j: "j = length cs" and i: "i < length cs"
      by simp_all
    from assms(2) i have "\<not> py_eq (cs ! i) x"
      by (auto simp add: py_in_list_def list_ex_iff)
    with i j show ?thesis
      by (simp add: nth_append)
  qed
qed

lemma record_codes_pairwise_unequal:
  "pairwise_unequal resp_codes \<Longrightarrow> pairwise_unequal (record_codes resp_codes xs)"
  by (induction xs arbitrary: resp_codes) (simp_all add: pairwise_unequal_snoc)

lemma record_codes_covers:
  "\<forall>x \<in> set xs. py_eq x x \<Longrightarrow>
   (\<forall>x \<in> set xs. py_in_list x (record_codes resp_codes xs))
   \<and> (\<forall>c. py_in_list c resp_codes \<longrightarrow> py_in_list c (record_codes resp_codes xs))"
proof (induction xs arbitrary: resp_codes)
  case Nil
  then show ?case by simp
next
  case (Cons x xs)
  define cs' where "cs' = (if py_in_list x resp_codes then resp_codes else resp_codes @ [x])"
  from Cons.prems have refl: "py_eq x x" and rest: "\<forall>x \<in> set xs. py_eq x x"
    by simp_all
  have x: "py_in_list x cs'"
    using refl by (simp add: cs'_def py_in_list_append) (simp add: py_in_list_def)
  have mono: "py_in_list c resp_codes \<Longrightarrow> py_in_list c cs'" for c
    by (simp add: cs'_def py_in_list_append)
  from Cons.IH [OF rest, of cs'] x mono show ?case
    by (simp add: cs'_def [symmetric])
qed

lemma pairwise_unequal_distinct:
  assumes "pairwise_unequal cs" and "\<forall>c \<in> set cs. py_eq c c"
  shows "distinct cs"
  unfolding distinct_conv_nth
proof (intro allI impI)
  fix i j
  assume i: "i < length cs" and j: "j < length cs" and ne: "i \<noteq> j"
  show "cs ! i \<noteq> cs ! j"
  proof
    assume eq: "cs ! i = cs ! j"
    from assms(2) i have "py_eq (cs ! i) (cs ! i)"
      by simp
    with eq have both: "py_eq (cs ! i) (cs ! j)" "py_eq (cs ! j) (cs ! i)"
      by simp_all
    from ne consider "i < j" | "j < i"
      by linarith
    then show False
      using assms(1) both i j by cases (auto simp add: pairwise_unequal_def)
  qed
qed

text \<open>
  Claim C9.  The extractor builds its list of codes when it gets past its guards to the
  body: the connection has a verb and no errors stored, the response has status 200,
  and its JSON body is an object with \<^verbatim>\<open>errors\<close> and \<^verbatim>\<open>warnings\<close> each absent or an
  array of objects.  For such a body, being a Python value (dictionary keys distinct),
  the stored list of codes is what recording the \<^verbatim>\<open>errorId\<close> values of the \<^verbatim>\<open>errors\<close>
  entries and then those of the \<^verbatim>\<open>warnings\<close> entries in one shared list gives.  No value
  occurs twice in it, and no two of its items are equal in Python's sense either; every
  \<^verbatim>\<open>errorId\<close> of the body has an equal item in it.  It starts with the codes recorded
  from the errors alone, all of them \<^verbatim>\<open>errorId\<close> values of errors; what follows are
  \<^verbatim>\<open>errorId\<close> values of warnings, and a warning whose \<^verbatim>\<open>errorId\<close> equals that of an error
  is not among them.
\<close>

theorem resp_codes_deduplicated:
  assumes "self_resp_body_errors self = []"
    and "self_verb self = Some verb"
    and "self_response self = Some r"
    and "status_code r = 200"
    and "resp_json r = Some (PDict body)"
    and "dict_get body ''errors'' (PList []) = PList (map PDict eds)"
    and "dict_get body ''warnings'' (PList []) = PList (map PDict wds)"
    and "wf_pyval (PDict body)"
  shows
    "self_resp_codes (snd (get_resp_body_errors E self))
       = record_codes [] (map entry_code eds @ map entry_code wds)
     \<and> distinct (self_resp_codes (snd (get_resp_body_errors E self)))
     \<and> (\<forall>i j. i < j \<and> j < length (self_resp_codes (snd (get_resp_body_errors E self))) \<longrightarrow>
           \<not> py_eq (self_resp_codes (snd (get_resp_body_errors E self)) ! i)
                   (self_resp_codes (snd (get_resp_body_errors E self)) ! j))
     \<and> (\<forall>entry \<in> set eds \<union> set wds.
           py_in_list (entry_code entry) (self_resp_codes (snd (get_resp_body_errors E self))))
     \<and> set (record_codes [] (map entry_code eds)) \<subseteq> entry_code ` set eds
     \<and> (\<exists>extra. self_resp_codes (snd (get_resp_body_errors E self))
                    = record_codes [] (map entry_code eds) @ extra
           \<and> set extra \<subseteq> entry_code ` set wds
           \<and> (\<forall>w \<in> set wds. (\<exists>e \<in> set eds. py_eq (entry_code e) (entry_code w)) \<longrightarrow>
                 entry_code w \<notin> set extra))"
proof -
  define cs where "cs = self_resp_codes (snd (get_resp_body_errors E self))"
  define cs_e where "cs_e = record_codes [] (map entry_code eds)"
  have cs: "cs = record_codes [] (map entry_code eds @ map entry_code wds)"
    by (simp add: cs_def get_resp_body_errors_200 [OF assms(1-7)])
  have refl_e: "py_eq (entry_code e) (entry_code e)" if "e \<in> set eds" for e
    using entry_codes_wf [OF assms(8) assms(6) that] by (rule py_eq_refl)
  have refl_w: "py_eq (entry_code w) (entry_code w)" if "w \<in> set wds" for w
    using entry_codes_wf [OF assms(8) assms(7) that] by (rule py_eq_refl)
  have refl: "\<forall>x \<in> set (map entry_code eds @ map entry_code wds). py_eq x x"
    using refl_e refl_w by auto
  have pw: "pairwise_unequal cs"
    unfolding cs by (rule record_codes_pairwise_unequal) (simp add: pairwise_unequal_def)
  from record_codes_extends [of "[]" "map entry_code eds @ map entry_code wds"]
  have sub: "set cs \<subseteq> set (map entry_code eds @ map entry_code wds)"
    by (auto simp add: cs)
  with refl have "\<forall>c \<in> set cs. py_eq c c"
    by blast
  with pw have dist: "distinct cs"
    by (rule pairwise_unequal_distinct)
  from record_codes_covers [OF refl, of "[]"]
  have cover: "\<forall>entry \<in> set eds \<union> set wds. py_in_list (entry_code entry) cs"
    by (auto simp add: cs)
  from record_codes_extends [of "[]" "map entry_code eds"]
  have sub_e: "set cs_e \<subseteq> entry_code ` set eds"
    by (auto simp add: cs_e_def)
  have cover_e: "py_in_list (entry_code e) cs_e" if "e \<in> set eds" for e
  proof -
    have "\<forall>x \<in> set (map entry_code eds). py_eq x x"
      using refl_e by auto
    from record_codes_covers [OF this, of "[]"] that show ?thesis
      by (simp add: cs_e_def)
  qed
  from record_codes_extends [of cs_e "map entry_code wds"] obtain extra where
    extra: "record_codes cs_e (map entry_code wds) = cs_e @ extra"
      "set extra \<subseteq> set (map entry_code wds)" "\<forall>y \<in> set extra. \<not> py_in_list y cs_e"
    by blast
  have split: "cs = cs_e @ extra"
    using extra(1) by (simp add: cs cs_e_def record_codes_append)
  have seen: "entry_code w \<notin> set extra"
    if "e \<in> set eds" "py_eq (entry_code e) (entry_code w)" for e w
  proof
    assume "entry_code w \<in> set extra"
    with extra(3) have no: "\<not> py_in_list (entry_code w) cs_e"
      by blast
    from cover_e [OF that(1)] obtain item where "item \<in> set cs_e" "py_eq item (entry_code e)"
      by (auto simp add: py_in_list_def list_ex_iff)
    with that(2) have "item \<in> set cs_e" "py_eq item (entry_code w)"
      by (auto intro: py_eq_trans)
    then have "py_in_list (entry_code w) cs_e"
      by (auto simp add: py_in_list_def list_ex_iff)
    with no show False
      by simp
  qed
  have tail: "\<exists>extra. cs = cs_e @ extra
           \<and> set extra \<subseteq> entry_code ` set wds
           \<and> (\<forall>w \<in> set wds. (\<exists>e \<in> set eds. py_eq (entry_code e) (entry_code w)) \<longrightarrow>
                 entry_code w \<notin> set extra)"
    using split extra(2) seen by (intro exI [of _ extra]) auto
  from pw have pw': "\<forall>i j. i < j \<and> j < length cs \<longrightarrow> \<not> py_eq (cs ! i) (cs ! j)"
    by (simp add: pairwise_unequal_def)
  from cs dist pw' cover sub_e tail show ?thesis
    unfolding cs_def cs_e_def by (intro conjI)
qed

theorem resp_codes_deduplicated_witness:
  "self_resp_body_errors (test_api_with test_codes_body) = []
   \<and> wf_pyval (PDict test_codes_body)
   \<and> dict_get test_codes_body ''errors'' (PList []) =
       PList (map PDict [[(''errorId'', PInt 1)], [(''errorId'', PInt 2)], [(''errorId'', PInt 1)]])
   \<and> dict_get test_codes_body ''warnings'' (PList []) =
       PList (map PDict [[(''errorId'', PInt 2)], [(''errorId'', PBool True)], [(''errorId'', PInt 3)]])
   \<and> self_resp_codes (snd (get_resp_body_errors test_env (test_api_with test_codes_body)))
       = [PInt 1, PInt 2, PInt 3]"
proof -
  let ?r = "\<lambda>body. \<lparr>status_code = 200, reason = ''OK'', resp_json = Some (PDict body)\<rparr>"
  have h1: "self_resp_body_errors (test_api_with body) = []" for body
    by (simp add: test_api_with_def test_api_def)
  have h2: "self_verb (test_api_with body) = Some ''search''" for body
    by (simp add: test_api_with_def)
  have h3: "self_response (test_api_with body) = Some (?r body)" for body
    by (simp add: test_api_with_def)
  have h4: "status_code (?r body) = 200" for body
    by simp
  have h5: "resp_json (?r body) = Some (PDict body)" for body
    by simp
  have h6: "dict_get test_codes_body ''errors'' (PList []) =
       PList (map PDict [[(''errorId'', PInt 1)], [(''errorId'', PInt 2)], [(''errorId'', PInt 1)]])"
    by (simp add: test_codes_body_def dict_get_def)
  have h7: "dict_get test_codes_body ''warnings'' (PList []) =
       PList (map PDict [[(''errorId'', PInt 2)], [(''errorId'', PBool True)], [(''errorId'', PInt 3)]])"
    by (simp add: test_codes_body_def dict_get_def)
  have h8: "wf_pyval (PDict test_codes_body)"
    by (simp add: test_codes_body_def)
  have "self_resp_codes (snd (get_resp_body_errors test_env (test_api_with test_codes_body)))
       = [PInt 1, PInt 2, PInt 3]"
    using resp_codes_deduplicated [OF h1 h2 h3 h4 h5 h6 h7 h8, of test_env, THEN conjunct1]
    by (simp add: entry_code_def dict_get_def py_in_list_def)
  with h1 h8 h6 h7 show ?thesis
    by (intro conjI)
qed

end
